theory Spec2Isabelle
  imports Main
begin

section \<open>JavaScript values, errors and DOM nodes\<close>

text \<open>
  The reader (src/reader.js) works on the answers of an XPath engine over a parsed XML
  document. A thrown value is the left summand of a result, a returned value the right one.
  Strings are HOL strings: lists of 8-bit characters, read as the code units below 256 of a
  JavaScript string.
\<close>

datatype exn = TypeError | EngineError string

datatype jsval = Undefined | Null | Str string

record attr =
  name :: string
  "value" :: string

text \<open>
  The nodes a query returns: attribute nodes, character data (text, CDATA, comments) and
  elements with their attribute list and child nodes.
\<close>

datatype node = AttrNode attr | CharacterData string | Element "attr list" "node list"

fun nodeValue :: "node \<Rightarrow> jsval" where
  "nodeValue (AttrNode a) = Str (value a)"
| "nodeValue (CharacterData d) = Str d"
| "nodeValue (Element as cs) = Null"

text \<open>The property \<open>.value\<close> of a node: only attribute nodes have it.\<close>

fun node_value :: "node \<Rightarrow> jsval" where
  "node_value (AttrNode a) = Str (value a)"
| "node_value (CharacterData d) = Undefined"
| "node_value (Element as cs) = Undefined"

text \<open>
  The property \<open>.attributes\<close>: the attribute list of an element. On any other node it is
  null, and lodash's \<open>find\<close> over null finds nothing, as over the empty list.
\<close>

fun attributes :: "node \<Rightarrow> attr list" where
  "attributes (Element as cs) = as"
| "attributes (AttrNode a) = []"
| "attributes (CharacterData d) = []"

fun firstChild :: "node \<Rightarrow> node option" where
  "firstChild (Element as []) = None"
| "firstChild (Element as (c # cs)) = Some c"
| "firstChild (AttrNode a) = None"
| "firstChild (CharacterData d) = None"

text \<open>The property \<open>.data\<close>: only character data has it.\<close>

fun data :: "node \<Rightarrow> jsval" where
  "data (CharacterData d) = Str d"
| "data (AttrNode a) = Undefined"
| "data (Element as cs) = Undefined"

text \<open>String conversion of a template literal and of a property key.\<close>

fun js_toString :: "jsval \<Rightarrow> string" where
  "js_toString Undefined = ''undefined''"
| "js_toString Null = ''null''"
| "js_toString (Str s) = s"

section \<open>Strings: whitespace, comparison, conversion to a number\<close>

text \<open>
  The characters matched by \<open>\s\<close> in a regular expression and stripped by \<open>trim\<close>: tab, line
  feed, vertical tab, form feed, carriage return, space and no-break space.
\<close>

definition isWhiteSpace :: "char \<Rightarrow> bool" where
  "isWhiteSpace c \<longleftrightarrow>
     c = CHR 0x09 \<or> c = CHR 0x0A \<or> c = CHR 0x0B \<or> c = CHR 0x0C \<or> c = CHR 0x0D \<or>
     c = CHR 0x20 \<or> c = CHR 0xA0"

text \<open>\<open>s.replace(/[\r\n\t\s]/gm, '')\<close>: every match is removed.\<close>

definition replace_whitespace :: "string \<Rightarrow> string" where
  "replace_whitespace s = filter (\<lambda>c. \<not> isWhiteSpace c) s"

text \<open>\<open>s.trim()\<close>\<close>

definition trim :: "string \<Rightarrow> string" where
  "trim s = rev (dropWhile isWhiteSpace (rev (dropWhile isWhiteSpace s)))"

text \<open>The relation \<open><\<close> of two strings: lexicographic on the code units.\<close>

fun str_lt :: "string \<Rightarrow> string \<Rightarrow> bool" where
  "str_lt [] [] = False"
| "str_lt [] (b # bs) = True"
| "str_lt (a # as) [] = False"
| "str_lt (a # as) (b # bs) =
     (if (of_char a :: nat) < of_char b then True
      else if (of_char b :: nat) < of_char a then False
      else str_lt as bs)"

text \<open>
  Conversion of a string to a number (ECMAScript StringToNumber), up to what a comparison
  with the number 0 needs: whether the result is NaN, negative, zero or positive. The
  literal is trimmed; the empty string is 0; a decimal literal has an optional sign, then
  \<open>Infinity\<close> or digits with an optional fraction and exponent; a binary, octal or
  hexadecimal literal has no sign. The value of a decimal literal is rounded to the nearest
  double, ties to even: it is 0 when its digits are all 0, and also when it is at most
  \<open>2 ^ -1075\<close>, half of the least positive double.
\<close>

datatype numclass = NaN | Negative | Zero | Positive

definition isDigit :: "char \<Rightarrow> bool" where
  "isDigit c \<longleftrightarrow> (48::nat) \<le> of_char c \<and> of_char c \<le> (57::nat)"

definition isHexDigit :: "char \<Rightarrow> bool" where
  "isHexDigit c \<longleftrightarrow> isDigit c \<or> ((65::nat) \<le> of_char c \<and> of_char c \<le> (70::nat))
     \<or> ((97::nat) \<le> of_char c \<and> of_char c \<le> (102::nat))"

definition isOctalDigit :: "char \<Rightarrow> bool" where
  "isOctalDigit c \<longleftrightarrow> (48::nat) \<le> of_char c \<and> of_char c \<le> (55::nat)"

definition isBinaryDigit :: "char \<Rightarrow> bool" where
  "isBinaryDigit c \<longleftrightarrow> c = CHR ''0'' \<or> c = CHR ''1''"

definition allZero :: "string \<Rightarrow> bool" where
  "allZero ds \<longleftrightarrow> list_all (\<lambda>c. c = CHR ''0'') ds"

text \<open>An exponent part, or nothing.\<close>

fun exponentPart :: "string \<Rightarrow> bool" where
  "exponentPart [] = True"
| "exponentPart (e # rest) =
     ((e = CHR ''e'' \<or> e = CHR ''E'') \<and>
      (let ds = (case rest of [] \<Rightarrow> []
                 | s # r \<Rightarrow> if s = CHR ''+'' \<or> s = CHR ''-'' then r else rest)
       in ds \<noteq> [] \<and> list_all isDigit ds))"

text \<open>The number written by a string of decimal digits.\<close>

definition digitsValue :: "string \<Rightarrow> int" where
  "digitsValue ds = foldl (\<lambda>n c. 10 * n + (of_char c - 48)) 0 ds"

text \<open>The exponent that a valid exponent part writes; 0 without one.\<close>

fun exponentValue :: "string \<Rightarrow> int" where
  "exponentValue [] = 0"
| "exponentValue (e # rest) =
     (case rest of
        [] \<Rightarrow> 0
      | s # r \<Rightarrow>
          if s = CHR ''-'' then - digitsValue r
          else if s = CHR ''+'' then digitsValue r
          else digitsValue rest)"

text \<open>
  Whether the positive value \<open>m * 10 ^ e\<close> rounds to 0: it is at most \<open>2 ^ -1075\<close>.
\<close>

definition roundsToZero :: "int \<Rightarrow> int \<Rightarrow> bool" where
  "roundsToZero m e \<longleftrightarrow> e < 0 \<and> m * 2 ^ 1075 \<le> 10 ^ nat (- e)"

definition unsignedDecimal :: "string \<Rightarrow> numclass" where
  "unsignedDecimal s =
     (if s = ''Infinity'' then Positive
      else
        let ip = takeWhile isDigit s;
            r1 = dropWhile isDigit s;
            fp = (case r1 of [] \<Rightarrow> []
                  | d # r \<Rightarrow> if d = CHR ''.'' then takeWhile isDigit r else []);
            r2 = (case r1 of [] \<Rightarrow> []
                  | d # r \<Rightarrow> if d = CHR ''.'' then dropWhile isDigit r else r1)
        in if ip = [] \<and> fp = [] then NaN
           else if \<not> exponentPart r2 then NaN
           else if allZero (ip @ fp) then Zero
           else if roundsToZero (digitsValue (ip @ fp)) (exponentValue r2 - int (length fp))
             then Zero
           else Positive)"

definition nonDecimal :: "(char \<Rightarrow> bool) \<Rightarrow> string \<Rightarrow> numclass" where
  "nonDecimal digit ds =
     (if ds \<noteq> [] \<and> list_all digit ds then (if allZero ds then Zero else Positive) else NaN)"

definition negate :: "numclass \<Rightarrow> numclass" where
  "negate c = (case c of Positive \<Rightarrow> Negative | Negative \<Rightarrow> Positive | c' \<Rightarrow> c')"

definition StringToNumber :: "string \<Rightarrow> numclass" where
  "StringToNumber str =
     (let s = trim str in
      case s of
        [] \<Rightarrow> Zero
      | c # r \<Rightarrow>
          if c = CHR ''+'' then unsignedDecimal r
          else if c = CHR ''-'' then negate (unsignedDecimal r)
          else if c = CHR ''0'' \<and> r \<noteq> [] \<and> (hd r = CHR ''x'' \<or> hd r = CHR ''X'')
            then nonDecimal isHexDigit (tl r)
          else if c = CHR ''0'' \<and> r \<noteq> [] \<and> (hd r = CHR ''o'' \<or> hd r = CHR ''O'')
            then nonDecimal isOctalDigit (tl r)
          else if c = CHR ''0'' \<and> r \<noteq> [] \<and> (hd r = CHR ''b'' \<or> hd r = CHR ''B'')
            then nonDecimal isBinaryDigit (tl r)
          else unsignedDecimal s)"

section \<open>lodash: find, sortBy, camelCase\<close>

text \<open>
  \<open>find(collection, predicate)\<close> is \<^const>\<open>find\<close> of the list library: the first element
  that satisfies the predicate, or nothing (undefined). A matcher object such as
  \<open>{ name: 'index' }\<close> is the predicate that compares that property.
\<close>

text \<open>
  What the iteratee of \<open>sortBy\<close> returns in the reader: the number 0, or a string.
\<close>

datatype sortkey = KeyZero | KeyStr string

text \<open>
  The relation \<open><\<close> of two such values: two strings are compared as strings; a string and
  a number are compared as numbers, and every comparison with NaN is false.
\<close>

fun js_lt :: "sortkey \<Rightarrow> sortkey \<Rightarrow> bool" where
  "js_lt (KeyStr a) (KeyStr b) = str_lt a b"
| "js_lt (KeyStr a) KeyZero = (StringToNumber a = Negative)"
| "js_lt KeyZero (KeyStr b) = (StringToNumber b = Positive)"
| "js_lt KeyZero KeyZero = False"

text \<open>
  \<open>compareAscending(value, other)\<close> of lodash, on values that are neither undefined, null,
  NaN nor a symbol: 1 if \<open>value > other\<close>, -1 if \<open>value < other\<close>, else 0.
\<close>

definition compareAscending :: "sortkey \<Rightarrow> sortkey \<Rightarrow> int" where
  "compareAscending val other =
     (if val \<noteq> other then
        (if js_lt other val then 1 else if js_lt val other then - 1 else 0)
      else 0)"

record 'a sort_entry =
  criteria :: sortkey
  index :: nat
  entry_value :: 'a

text \<open>\<open>compareMultiple\<close> with one criterion, ascending: ties are decided by the position.\<close>

definition compareMultiple :: "'a sort_entry \<Rightarrow> 'a sort_entry \<Rightarrow> int" where
  "compareMultiple object other =
     (let result = compareAscending (criteria object) (criteria other)
      in if result \<noteq> 0 then result else int (index object) - int (index other))"

text \<open>
  \<open>array.sort(comparer)\<close> as insertion sort. For a comparer that orders the elements
  consistently every sorting algorithm returns this list; for any other comparer the
  language leaves the order to the implementation.
\<close>

fun insert_by :: "('a \<Rightarrow> 'a \<Rightarrow> int) \<Rightarrow> 'a \<Rightarrow> 'a list \<Rightarrow> 'a list" where
  "insert_by comparer x [] = [x]"
| "insert_by comparer x (y # ys) =
     (if comparer x y > 0 then y # insert_by comparer x ys else x # y # ys)"

fun array_sort :: "('a \<Rightarrow> 'a \<Rightarrow> int) \<Rightarrow> 'a list \<Rightarrow> 'a list" where
  "array_sort comparer [] = []"
| "array_sort comparer (x # xs) = insert_by comparer x (array_sort comparer xs)"

text \<open>
  \<open>sortBy(collection, iteratee)\<close>: every element is paired with its criterion and its
  position, the pairs are sorted with \<open>compareMultiple\<close>, and the elements are returned.
\<close>

definition sortBy :: "'a list \<Rightarrow> ('a \<Rightarrow> sortkey) \<Rightarrow> 'a list" where
  "sortBy collection iteratee =
     map entry_value
       (array_sort compareMultiple
          (map (\<lambda>(i, v). \<lparr>criteria = iteratee v, index = i, entry_value = v\<rparr>)
             (enumerate 0 collection)))"

text \<open>
  Modelled from the spec: \<open>camelCase\<close> of lodash, which is not part of the sources. The spec:
  delimiters (spaces, hyphens, underscores) removed, each subsequent word capitalized,
  first word lower-cased. A capitalized word has its first letter in upper case and the
  others in lower case.
\<close>

definition isDelimiter :: "char \<Rightarrow> bool" where
  "isDelimiter c \<longleftrightarrow> c = CHR '' '' \<or> c = CHR ''-'' \<or> c = CHR ''_''"

definition toLower :: "char \<Rightarrow> char" where
  "toLower c = (if (65::nat) \<le> of_char c \<and> of_char c \<le> (90::nat)
                then char_of (of_char c + (32::nat)) else c)"

definition toUpper :: "char \<Rightarrow> char" where
  "toUpper c = (if (97::nat) \<le> of_char c \<and> of_char c \<le> (122::nat)
                then char_of (of_char c - (32::nat)) else c)"

function words :: "string \<Rightarrow> string list" where
  "words [] = []"
| "words (c # cs) =
     (if isDelimiter c then words cs
      else (c # takeWhile (\<lambda>d. \<not> isDelimiter d) cs) # words (dropWhile (\<lambda>d. \<not> isDelimiter d) cs))"
  by pat_completeness auto
termination
  by (relation "measure length") (auto simp: length_dropWhile_le less_Suc_eq_le)

definition capitalize :: "string \<Rightarrow> string" where
  "capitalize w = (case w of [] \<Rightarrow> [] | c # cs \<Rightarrow> toUpper c # map toLower cs)"

definition camelCase :: "string \<Rightarrow> string" where
  "camelCase s =
     (case words s of [] \<Rightarrow> []
      | w # ws \<Rightarrow> map toLower w @ concat (map capitalize ws))"

text \<open>The string conversion of lodash: undefined and null are the empty string.\<close>

fun lodash_toString :: "jsval \<Rightarrow> string" where
  "lodash_toString Undefined = []"
| "lodash_toString Null = []"
| "lodash_toString (Str s) = s"

section \<open>The metadata reader\<close>

record options =
  authnRequestBinding :: string
  throwExceptions :: bool

definition defaultOptions :: options where
  "defaultOptions = \<lparr>authnRequestBinding = ''HTTP-Redirect'', throwExceptions = False\<rparr>"

text \<open>
  A reader holds its options and its query function, the XPath engine applied to the parsed
  document: a query returns the list of matched nodes, or throws.
\<close>

record reader =
  options :: options
  query :: "string \<Rightarrow> exn + node list"

text \<open>
  The constructor. The options of the caller, each of them given or not, are merged onto the
  defaults. The query function calls the engine \<open>select\<close> on the document; an error of the
  engine is logged and thrown again.
\<close>

record options_arg =
  authnRequestBinding_arg :: "string option"
  throwExceptions_arg :: "bool option"

definition merge :: "options \<Rightarrow> options_arg \<Rightarrow> options" where
  "merge defaults given =
     \<lparr>authnRequestBinding =
        (case authnRequestBinding_arg given of None \<Rightarrow> authnRequestBinding defaults | Some b \<Rightarrow> b),
      throwExceptions =
        (case throwExceptions_arg given of None \<Rightarrow> throwExceptions defaults | Some t \<Rightarrow> t)\<rparr>"

definition MetadataReader :: "(string \<Rightarrow> exn + node list) \<Rightarrow> options_arg \<Rightarrow> reader" where
  "MetadataReader select given =
     \<lparr>options = merge defaultOptions given,
      query = (\<lambda>q. case select q of Inl e \<Rightarrow> Inl e | Inr nodes \<Rightarrow> Inr nodes)\<rparr>"

subsection \<open>entityID and identifierFormat\<close>

text \<open>
  Each operation is a try block and its handler. The try block is a definition of its own
  (\<open>_try\<close>), so that an error in it can be told from the result of the handler.
\<close>

definition entityID_try :: "reader \<Rightarrow> exn + jsval" where
  "entityID_try r =
     (case query r ''//md:EntityDescriptor/@entityID'' of
        Inl e \<Rightarrow> Inl e
      | Inr nodes \<Rightarrow> (case nodes of [] \<Rightarrow> Inl TypeError | n # ns \<Rightarrow> Inr (nodeValue n)))"

definition entityID :: "reader \<Rightarrow> exn + jsval" where
  "entityID r =
     (case entityID_try r of
        Inl e \<Rightarrow> if throwExceptions (options r) then Inl e else Inr Undefined
      | Inr v \<Rightarrow> Inr v)"

definition identifierFormat_try :: "reader \<Rightarrow> exn + jsval" where
  "identifierFormat_try r =
     (case query r ''//md:IDPSSODescriptor/md:NameIDFormat/text()'' of
        Inl e \<Rightarrow> Inl e
      | Inr nodes \<Rightarrow> (case nodes of [] \<Rightarrow> Inl TypeError | n # ns \<Rightarrow> Inr (nodeValue n)))"

definition identifierFormat :: "reader \<Rightarrow> exn + jsval" where
  "identifierFormat r =
     (case identifierFormat_try r of
        Inl e \<Rightarrow> if throwExceptions (options r) then Inl e else Inr Undefined
      | Inr v \<Rightarrow> Inr v)"

subsection \<open>identityProviderUrl and logoutUrl\<close>

text \<open>
  The elements are sorted by the value of their \<open>index\<close> attribute, or by 0 without one. The
  element taken is the first with an attribute whose value is the binding URI, or else the
  first element; an undefined element and a missing \<open>Location\<close> attribute are TypeErrors.
\<close>

definition identityProviderUrl_try :: "reader \<Rightarrow> exn + jsval" where
  "identityProviderUrl_try r =
     (case query r ''//md:IDPSSODescriptor/md:SingleSignOnService'' of
        Inl e \<Rightarrow> Inl e
      | Inr nodes \<Rightarrow>
          let singleSignOnServiceElements =
                sortBy nodes (\<lambda>singleSignOnServiceElement.
                  case find (\<lambda>a. name a = ''index'') (attributes singleSignOnServiceElement) of
                    Some indexAttribute \<Rightarrow> KeyStr (value indexAttribute)
                  | None \<Rightarrow> KeyZero);
              singleSignOnServiceElement =
                (case find (\<lambda>element.
                         find (\<lambda>a. value a =
                                 ''urn:oasis:names:tc:SAML:2.0:bindings:'' @
                                 authnRequestBinding (options r))
                           (attributes element) \<noteq> None)
                       singleSignOnServiceElements of
                   Some element \<Rightarrow> Some element
                 | None \<Rightarrow>
                     (case singleSignOnServiceElements of [] \<Rightarrow> None | first # rest \<Rightarrow> Some first))
          in case singleSignOnServiceElement of
               None \<Rightarrow> Inl TypeError
             | Some element \<Rightarrow>
                 (case find (\<lambda>a. name a = ''Location'') (attributes element) of
                    None \<Rightarrow> Inl TypeError
                  | Some location \<Rightarrow> Inr (Str (value location))))"

definition identityProviderUrl :: "reader \<Rightarrow> exn + jsval" where
  "identityProviderUrl r =
     (case identityProviderUrl_try r of
        Inl e \<Rightarrow> if throwExceptions (options r) then Inl e else Inr Undefined
      | Inr v \<Rightarrow> Inr v)"

definition logoutUrl_try :: "reader \<Rightarrow> exn + jsval" where
  "logoutUrl_try r =
     (case query r ''//md:IDPSSODescriptor/md:SingleLogoutService'' of
        Inl e \<Rightarrow> Inl e
      | Inr nodes \<Rightarrow>
          let singleLogoutServiceElements =
                sortBy nodes (\<lambda>singleLogoutServiceElement.
                  case find (\<lambda>a. name a = ''index'') (attributes singleLogoutServiceElement) of
                    Some indexAttribute \<Rightarrow> KeyStr (value indexAttribute)
                  | None \<Rightarrow> KeyZero);
              singleLogoutServiceElement =
                (case find (\<lambda>element.
                         find (\<lambda>a. value a =
                                 ''urn:oasis:names:tc:SAML:2.0:bindings:'' @
                                 authnRequestBinding (options r))
                           (attributes element) \<noteq> None)
                       singleLogoutServiceElements of
                   Some element \<Rightarrow> Some element
                 | None \<Rightarrow>
                     (case singleLogoutServiceElements of [] \<Rightarrow> None | first # rest \<Rightarrow> Some first))
          in case singleLogoutServiceElement of
               None \<Rightarrow> Inl TypeError
             | Some element \<Rightarrow>
                 (case find (\<lambda>a. name a = ''Location'') (attributes element) of
                    None \<Rightarrow> Inl TypeError
                  | Some location \<Rightarrow> Inr (Str (value location))))"

definition logoutUrl :: "reader \<Rightarrow> exn + jsval" where
  "logoutUrl r =
     (case logoutUrl_try r of
        Inl e \<Rightarrow> if throwExceptions (options r) then Inl e else Inr Undefined
      | Inr v \<Rightarrow> Inr v)"

subsection \<open>Certificates\<close>

text \<open>
  \<open>array.map(f)\<close> with a function that may throw: the first error ends the loop.
\<close>

fun array_map :: "('a \<Rightarrow> exn + 'b) \<Rightarrow> 'a list \<Rightarrow> exn + 'b list" where
  "array_map f [] = Inr []"
| "array_map f (x # xs) =
     (case f x of
        Inl e \<Rightarrow> Inl e
      | Inr y \<Rightarrow> (case array_map f xs of Inl e \<Rightarrow> Inl e | Inr ys \<Rightarrow> Inr (y # ys)))"

text \<open>
  The function mapped over the certificate nodes: the data of the first child, with its
  whitespace removed when \<open>trimNewLines\<close> is true. A node without a first child, and with
  \<open>trimNewLines\<close> true a first child without data, are TypeErrors.
\<close>

definition certText :: "bool \<Rightarrow> node \<Rightarrow> exn + jsval" where
  "certText trimNewLines n =
     (case firstChild n of
        None \<Rightarrow> Inl TypeError
      | Some c \<Rightarrow>
          if trimNewLines then
            (case data c of Str s \<Rightarrow> Inr (Str (replace_whitespace s)) | v \<Rightarrow> Inl TypeError)
          else Inr (data c))"

definition encryptionCerts_try :: "bool \<Rightarrow> reader \<Rightarrow> exn + jsval list" where
  \<open>encryptionCerts_try trimNewLines r =
     (case query r ''//md:IDPSSODescriptor/md:KeyDescriptor[@use="encryption" or not(@use)]/sig:KeyInfo/sig:X509Data/sig:X509Certificate'' of
        Inl e \<Rightarrow> Inl e
      | Inr nodes \<Rightarrow> array_map (certText trimNewLines) nodes)\<close>

text \<open>The result of a list operation: a list, or nothing (undefined).\<close>

definition encryptionCerts :: "bool \<Rightarrow> reader \<Rightarrow> exn + jsval list option" where
  "encryptionCerts trimNewLines r =
     (case encryptionCerts_try trimNewLines r of
        Inl e \<Rightarrow> if throwExceptions (options r) then Inl e else Inr None
      | Inr certs \<Rightarrow> Inr (Some certs))"

text \<open>
  \<open>certs[0].trim()\<close>: undefined in place of the list, an empty list and a first element that
  is not a string are TypeErrors.
\<close>

definition firstTrimmed :: "jsval list option \<Rightarrow> exn + jsval" where
  "firstTrimmed certs =
     (case certs of
        None \<Rightarrow> Inl TypeError
      | Some [] \<Rightarrow> Inl TypeError
      | Some (Str s # rest) \<Rightarrow> Inr (Str (trim s))
      | Some (v # rest) \<Rightarrow> Inl TypeError)"

definition encryptionCert_try :: "bool \<Rightarrow> reader \<Rightarrow> exn + jsval" where
  "encryptionCert_try trimNewLines r =
     (case encryptionCerts trimNewLines r of
        Inl e \<Rightarrow> Inl e
      | Inr certs \<Rightarrow> firstTrimmed certs)"

definition encryptionCert :: "bool \<Rightarrow> reader \<Rightarrow> exn + jsval" where
  "encryptionCert trimNewLines r =
     (case encryptionCert_try trimNewLines r of
        Inl e \<Rightarrow> if throwExceptions (options r) then Inl e else Inr Undefined
      | Inr v \<Rightarrow> Inr v)"

definition signingCerts_try :: "bool \<Rightarrow> reader \<Rightarrow> exn + jsval list" where
  \<open>signingCerts_try trimNewLines r =
     (case query r ''//md:IDPSSODescriptor/md:KeyDescriptor[@use="signing" or not(@use)]/sig:KeyInfo/sig:X509Data/sig:X509Certificate'' of
        Inl e \<Rightarrow> Inl e
      | Inr nodes \<Rightarrow> array_map (certText trimNewLines) nodes)\<close>

definition signingCerts :: "bool \<Rightarrow> reader \<Rightarrow> exn + jsval list option" where
  "signingCerts trimNewLines r =
     (case signingCerts_try trimNewLines r of
        Inl e \<Rightarrow> if throwExceptions (options r) then Inl e else Inr None
      | Inr certs \<Rightarrow> Inr (Some certs))"

definition signingCert_try :: "bool \<Rightarrow> reader \<Rightarrow> exn + jsval" where
  "signingCert_try trimNewLines r =
     (case signingCerts trimNewLines r of
        Inl e \<Rightarrow> Inl e
      | Inr certs \<Rightarrow> firstTrimmed certs)"

definition signingCert :: "bool \<Rightarrow> reader \<Rightarrow> exn + jsval" where
  "signingCert trimNewLines r =
     (case signingCert_try trimNewLines r of
        Inl e \<Rightarrow> if throwExceptions (options r) then Inl e else Inr Undefined
      | Inr v \<Rightarrow> Inr v)"

subsection \<open>claimSchema\<close>

record claim =
  claim_name :: jsval
  claim_description :: jsval
  claim_camelCase :: string

text \<open>
  The query for the \<open>FriendlyName\<close> of a claim: the name is put between the quotes of the
  path expression as it is.
\<close>

definition friendlyNameQuery :: "jsval \<Rightarrow> string" where
  \<open>friendlyNameQuery nm =
     ''//md:IDPSSODescriptor/claim:Attribute[@Name="'' @ js_toString nm @ ''"]/@FriendlyName''\<close>

text \<open>
  \<open>claims[key] = c\<close> on an object made by \<open>{}\<close>: the key \<open>__proto__\<close> sets the prototype of
  the object and adds no entry.
\<close>

definition assign :: "(string \<rightharpoonup> claim) \<Rightarrow> string \<Rightarrow> claim \<Rightarrow> (string \<rightharpoonup> claim)" where
  "assign claims k c = (if k = ''__proto__'' then claims else claims(k \<mapsto> c))"

text \<open>The inner try block of the callback: the key and the claim that it assigns.\<close>

definition claim_try :: "reader \<Rightarrow> node \<Rightarrow> exn + string \<times> claim" where
  "claim_try r n =
     (let nm = node_value n in
      case query r (friendlyNameQuery nm) of
        Inl e \<Rightarrow> Inl e
      | Inr found \<Rightarrow>
          (case found of
             [] \<Rightarrow> Inl TypeError
           | f # fs \<Rightarrow>
               let description = node_value f;
                   camelized = camelCase (lodash_toString description)
               in Inr (js_toString (node_value n),
                       \<lparr>claim_name = nm, claim_description = description,
                        claim_camelCase = camelized\<rparr>)))"

text \<open>The callback of \<open>reduce\<close>, with the handler of its try block.\<close>

definition claim_step :: "reader \<Rightarrow> (string \<rightharpoonup> claim) \<Rightarrow> node \<Rightarrow> exn + (string \<rightharpoonup> claim)" where
  "claim_step r claims n =
     (case claim_try r n of
        Inr (k, c) \<Rightarrow> Inr (assign claims k c)
      | Inl e \<Rightarrow> if throwExceptions (options r) then Inl e else Inr claims)"

text \<open>\<open>array.reduce(callback, initial)\<close> with a callback that may throw.\<close>

fun reduce :: "('b \<Rightarrow> 'a \<Rightarrow> exn + 'b) \<Rightarrow> 'b \<Rightarrow> 'a list \<Rightarrow> exn + 'b" where
  "reduce callback acc [] = Inr acc"
| "reduce callback acc (x # xs) =
     (case callback acc x of Inl e \<Rightarrow> Inl e | Inr acc' \<Rightarrow> reduce callback acc' xs)"

definition claimSchema_try :: "reader \<Rightarrow> exn + (string \<rightharpoonup> claim)" where
  "claimSchema_try r =
     (case query r ''//md:IDPSSODescriptor/claim:Attribute/@Name'' of
        Inl e \<Rightarrow> Inl e
      | Inr nodes \<Rightarrow> reduce (claim_step r) Map.empty nodes)"

text \<open>The result of \<open>claimSchema\<close>: a mapping, or nothing (undefined).\<close>

definition claimSchema :: "reader \<Rightarrow> exn + (string \<rightharpoonup> claim) option" where
  "claimSchema r =
     (case claimSchema_try r of
        Inl e \<Rightarrow> if throwExceptions (options r) then Inl e else Inr (Some Map.empty)
      | Inr claims \<Rightarrow> Inr (Some claims))"

section \<open>Notions used in the statements\<close>

abbreviation singleSignOnServicePath :: string where
  "singleSignOnServicePath \<equiv> ''//md:IDPSSODescriptor/md:SingleSignOnService''"

abbreviation singleLogoutServicePath :: string where
  "singleLogoutServicePath \<equiv> ''//md:IDPSSODescriptor/md:SingleLogoutService''"

abbreviation encryptionCertPath :: string where
  \<open>encryptionCertPath \<equiv> ''//md:IDPSSODescriptor/md:KeyDescriptor[@use="encryption" or not(@use)]/sig:KeyInfo/sig:X509Data/sig:X509Certificate''\<close>

abbreviation signingCertPath :: string where
  \<open>signingCertPath \<equiv> ''//md:IDPSSODescriptor/md:KeyDescriptor[@use="signing" or not(@use)]/sig:KeyInfo/sig:X509Data/sig:X509Certificate''\<close>

abbreviation claimNamePath :: string where
  "claimNamePath \<equiv> ''//md:IDPSSODescriptor/claim:Attribute/@Name''"

text \<open>The iteratee that both endpoint operations give to \<open>sortBy\<close>.\<close>

definition indexKey :: "node \<Rightarrow> sortkey" where
  "indexKey el =
     (case find (\<lambda>a. name a = ''index'') (attributes el) of
        Some indexAttribute \<Rightarrow> KeyStr (value indexAttribute)
      | None \<Rightarrow> KeyZero)"

text \<open>The binding URI of a reader: the fixed prefix, then the configured binding.\<close>

definition bindingUri :: "reader \<Rightarrow> string" where
  "bindingUri r = ''urn:oasis:names:tc:SAML:2.0:bindings:'' @ authnRequestBinding (options r)"

text \<open>The predicate of the binding match: some attribute of the element has the value.\<close>

definition hasAttributeValue :: "string \<Rightarrow> node \<Rightarrow> bool" where
  "hasAttributeValue uri el \<longleftrightarrow> find (\<lambda>a. value a = uri) (attributes el) \<noteq> None"

text \<open>
  The predicate the specification describes: the attribute named \<open>Binding\<close> has the value.
\<close>

definition bindingAttributeIs :: "string \<Rightarrow> node \<Rightarrow> bool" where
  "bindingAttributeIs uri el \<longleftrightarrow>
     (case find (\<lambda>a. name a = ''Binding'') (attributes el) of
        Some b \<Rightarrow> value b = uri
      | None \<Rightarrow> False)"

text \<open>The binding match on a sorted list, with its fallback to the first element.\<close>

definition selectElement :: "string \<Rightarrow> node list \<Rightarrow> node option" where
  "selectElement uri elements =
     (case find (hasAttributeValue uri) elements of
        Some el \<Rightarrow> Some el
      | None \<Rightarrow> (case elements of [] \<Rightarrow> None | first # rest \<Rightarrow> Some first))"

text \<open>The \<open>Location\<close> of the selected element.\<close>

definition locationOf :: "node option \<Rightarrow> exn + jsval" where
  "locationOf selected =
     (case selected of
        None \<Rightarrow> Inl TypeError
      | Some el \<Rightarrow>
          (case find (\<lambda>a. name a = ''Location'') (attributes el) of
             None \<Rightarrow> Inl TypeError
           | Some location \<Rightarrow> Inr (Str (value location))))"

text \<open>
  The selection algorithm as the specification has it: one algorithm, with the path of the
  service elements as its parameter.
\<close>

definition serviceUrl_try :: "string \<Rightarrow> reader \<Rightarrow> exn + jsval" where
  "serviceUrl_try path r =
     (case query r path of
        Inl e \<Rightarrow> Inl e
      | Inr nodes \<Rightarrow> locationOf (selectElement (bindingUri r) (sortBy nodes indexKey)))"

definition serviceUrl :: "string \<Rightarrow> reader \<Rightarrow> exn + jsval" where
  "serviceUrl path r =
     (case serviceUrl_try path r of
        Inl e \<Rightarrow> if throwExceptions (options r) then Inl e else Inr Undefined
      | Inr v \<Rightarrow> Inr v)"

text \<open>The key under which the callback of \<open>claimSchema\<close> stores the claim of a node.\<close>

definition claimKey :: "node \<Rightarrow> string" where
  "claimKey n = js_toString (node_value n)"

section \<open>Example documents\<close>

text \<open>
  An engine given by its answers on a document: the nodes of the listed queries, and no
  node for any other query.
\<close>

definition answers :: "(string \<times> node list) list \<Rightarrow> string \<Rightarrow> exn + node list" where
  "answers table q = (case map_of table q of Some nodes \<Rightarrow> Inr nodes | None \<Rightarrow> Inr [])"

text \<open>An engine that throws on every query.\<close>

definition failing :: "string \<Rightarrow> exn + node list" where
  "failing q = Inl (EngineError ''cannot evaluate'')"

text \<open>The options of a caller who gives none, and of one who asks for exceptions.\<close>

definition noOptions :: options_arg where
  "noOptions = \<lparr>authnRequestBinding_arg = None, throwExceptions_arg = None\<rparr>"

definition throwing :: options_arg where
  "throwing = \<lparr>authnRequestBinding_arg = None, throwExceptions_arg = Some True\<rparr>"

text \<open>A service element with the given attributes, each a name and a value.\<close>

definition service :: "(string \<times> string) list \<Rightarrow> node" where
  "service as = Element (map (\<lambda>(n, v). \<lparr>name = n, value = v\<rparr>) as) []"

text \<open>
  Two single-sign-on endpoints. The first has the POST binding, and the redirect binding
  URI as the value of its \<open>ResponseLocation\<close>; the second has the redirect binding.
\<close>

definition postEndpoint :: node where
  "postEndpoint = service [(''Binding'', ''urn:oasis:names:tc:SAML:2.0:bindings:HTTP-POST''),
     (''Location'', ''https://idp.example.com/post''),
     (''ResponseLocation'', ''urn:oasis:names:tc:SAML:2.0:bindings:HTTP-Redirect'')]"

definition redirectEndpoint :: node where
  "redirectEndpoint = service [(''Binding'', ''urn:oasis:names:tc:SAML:2.0:bindings:HTTP-Redirect''),
     (''Location'', ''https://idp.example.com/redirect'')]"

definition responseLocationReader :: reader where
  "responseLocationReader =
     MetadataReader (answers [(singleSignOnServicePath, [postEndpoint, redirectEndpoint])]) noOptions"

text \<open>A service element with an index, a binding and a location.\<close>

definition indexed :: "string \<Rightarrow> string \<Rightarrow> string \<Rightarrow> node" where
  "indexed i binding location =
     service [(''index'', i), (''Binding'', ''urn:oasis:names:tc:SAML:2.0:bindings:'' @ binding),
       (''Location'', location)]"

text \<open>
  Documents whose service elements have the indices 2, 10 and 1, 2, 10 in document order.
\<close>

definition twoTenReader :: reader where
  "twoTenReader =
     MetadataReader (answers
       [(singleSignOnServicePath,
           [indexed ''2'' ''HTTP-POST'' ''https://idp.example.com/sso/two'',
            indexed ''10'' ''HTTP-POST'' ''https://idp.example.com/sso/ten'']),
        (singleLogoutServicePath,
           [indexed ''2'' ''HTTP-POST'' ''https://idp.example.com/slo/two'',
            indexed ''10'' ''HTTP-POST'' ''https://idp.example.com/slo/ten''])]) noOptions"

definition oneTwoTenReader :: reader where
  "oneTwoTenReader =
     MetadataReader (answers
       [(singleSignOnServicePath,
           [indexed ''1'' ''HTTP-POST'' ''https://idp.example.com/one'',
            indexed ''2'' ''HTTP-Redirect'' ''https://idp.example.com/two'',
            indexed ''10'' ''HTTP-Redirect'' ''https://idp.example.com/ten''])]) noOptions"

text \<open>Readers over a document without any service element.\<close>

definition emptyReader :: reader where
  "emptyReader = MetadataReader (answers []) noOptions"

definition emptyThrowingReader :: reader where
  "emptyThrowingReader = MetadataReader (answers []) throwing"

text \<open>The attribute nodes of a claim: its \<open>Name\<close> and its \<open>FriendlyName\<close>.\<close>

definition nameNode :: "string \<Rightarrow> node" where
  "nameNode n = AttrNode \<lparr>name = ''Name'', value = n\<rparr>"

definition friendlyName :: "string \<Rightarrow> node" where
  "friendlyName d = AttrNode \<lparr>name = ''FriendlyName'', value = d\<rparr>"

text \<open>
  A document with two claims, each with a \<open>FriendlyName\<close>: the engine answers the
  enumeration of the names and the lookup of each name.
\<close>

definition emailNameReader :: reader where
  \<open>emailNameReader = MetadataReader (answers
     [(claimNamePath, [nameNode ''urn:email'', nameNode ''urn:name'']),
      (''//md:IDPSSODescriptor/claim:Attribute[@Name="urn:email"]/@FriendlyName'',
         [friendlyName ''Email Address'']),
      (''//md:IDPSSODescriptor/claim:Attribute[@Name="urn:name"]/@FriendlyName'',
         [friendlyName ''Full Name''])]) noOptions\<close>

text \<open>
  A document with three claims, the second without a \<open>FriendlyName\<close>: its lookup finds no
  node.
\<close>

definition missingFriendlyName :: "string \<Rightarrow> exn + node list" where
  \<open>missingFriendlyName = answers
     [(claimNamePath, [nameNode ''urn:email'', nameNode ''urn:role'', nameNode ''urn:name'']),
      (''//md:IDPSSODescriptor/claim:Attribute[@Name="urn:email"]/@FriendlyName'',
         [friendlyName ''Email Address'']),
      (''//md:IDPSSODescriptor/claim:Attribute[@Name="urn:name"]/@FriendlyName'',
         [friendlyName ''Full Name''])]\<close>

definition missingFriendlyNameReader :: reader where
  "missingFriendlyNameReader = MetadataReader missingFriendlyName noOptions"

definition missingFriendlyNameThrowingReader :: reader where
  "missingFriendlyNameThrowingReader = MetadataReader missingFriendlyName throwing"

text \<open>Readers over the engine that throws on every query.\<close>

definition failingReader :: reader where
  "failingReader = MetadataReader failing noOptions"

definition failingThrowingReader :: reader where
  "failingThrowingReader = MetadataReader failing throwing"

text \<open>The claims of the attributes \<open>urn:email\<close> and \<open>urn:name\<close>.\<close>

definition emailClaim :: claim where
  "emailClaim = \<lparr>claim_name = Str ''urn:email'', claim_description = Str ''Email Address'',
     claim_camelCase = ''emailAddress''\<rparr>"

definition nameClaim :: claim where
  "nameClaim = \<lparr>claim_name = Str ''urn:name'', claim_description = Str ''Full Name'',
     claim_camelCase = ''fullName''\<rparr>"

text \<open>
  A document with three claims: \<open>urn:email\<close> with a \<open>FriendlyName\<close>, \<open>urn:role\<close> without
  one, and a claim of the name \<open>__proto__\<close> with a \<open>FriendlyName\<close>.
\<close>

definition protoNameReader :: reader where
  \<open>protoNameReader = MetadataReader (answers
     [(claimNamePath, [nameNode ''urn:email'', nameNode ''urn:role'', nameNode ''__proto__'']),
      (''//md:IDPSSODescriptor/claim:Attribute[@Name="urn:email"]/@FriendlyName'',
         [friendlyName ''Email Address'']),
      (''//md:IDPSSODescriptor/claim:Attribute[@Name="__proto__"]/@FriendlyName'',
         [friendlyName ''Prototype''])]) noOptions\<close>

definition protoClaim :: claim where
  "protoClaim = \<lparr>claim_name = Str ''__proto__'', claim_description = Str ''Prototype'',
     claim_camelCase = ''prototype''\<rparr>"

text \<open>
  A document with one claim whose name is \<open>x" or "1"="1\<close>. The lookup built from this name
  is a well-formed path expression: its predicate \<open>@Name="x" or "1"="1"\<close> holds for every
  attribute element, so the engine returns the \<open>FriendlyName\<close> of the claim.
\<close>

definition injectionDocument :: "string \<Rightarrow> exn + node list" where
  \<open>injectionDocument = answers
     [(claimNamePath, [nameNode ''x" or "1"="1'']),
      (''//md:IDPSSODescriptor/claim:Attribute[@Name="x" or "1"="1"]/@FriendlyName'',
         [friendlyName ''Sample''])]\<close>

definition injectionReader :: reader where
  "injectionReader = MetadataReader injectionDocument noOptions"

definition injectionThrowingReader :: reader where
  "injectionThrowingReader = MetadataReader injectionDocument throwing"

definition injectionClaim :: claim where
  \<open>injectionClaim = \<lparr>claim_name = Str ''x" or "1"="1'', claim_description = Str ''Sample'',
     claim_camelCase = ''sample''\<rparr>\<close>

text \<open>
  A document with one claim whose name is \<open>a"b\<close>. The lookup built from this name ends
  in an unterminated string literal, and the engine throws on it.
\<close>

definition unterminatedDocument :: "string \<Rightarrow> exn + node list" where
  \<open>unterminatedDocument q =
     (if q = ''//md:IDPSSODescriptor/claim:Attribute[@Name="a"b"]/@FriendlyName''
      then Inl (EngineError ''Unterminated string literal'')
      else answers [(claimNamePath, [nameNode ''a"b''])] q)\<close>

definition unterminatedReader :: reader where
  "unterminatedReader = MetadataReader unterminatedDocument noOptions"

definition unterminatedThrowingReader :: reader where
  "unterminatedThrowingReader = MetadataReader unterminatedDocument throwing"

text \<open>
  A document with one certificate for each use: its text has whitespace at both ends and
  inside.
\<close>

definition certificateText :: string where
  "certificateText = [CHR 0x0A, CHR 0x20] @ ''MIIC'' @ [CHR 0x0D, CHR 0x0A] @ ''Ab Cd'' @ [CHR 0x09, CHR 0x0A]"

definition certificateDocument :: "string \<Rightarrow> exn + node list" where
  "certificateDocument = answers
     [(encryptionCertPath, [Element [] [CharacterData certificateText]]),
      (signingCertPath, [Element [] [CharacterData certificateText]])]"

definition certificateReader :: reader where
  "certificateReader = MetadataReader certificateDocument noOptions"

section \<open>Properties\<close>

lemmas example_defs = MetadataReader_def answers_def noOptions_def throwing_def merge_def
  defaultOptions_def service_def indexed_def failing_def

lemmas sort_defs = sortBy_def compareMultiple_def compareAscending_def

subsection \<open>Endpoint selection\<close>

text \<open>Both endpoint operations are the selection algorithm on their own path.\<close>

lemma indexKey_eq:
  "(\<lambda>el. case find (\<lambda>a. name a = ''index'') (attributes el) of
           Some indexAttribute \<Rightarrow> KeyStr (value indexAttribute)
         | None \<Rightarrow> KeyZero) = indexKey"
  by (rule ext) (simp add: indexKey_def)

lemma hasAttributeValue_eq:
  "(\<lambda>element. find (\<lambda>a. value a = uri) (attributes element) \<noteq> None) = hasAttributeValue uri"
  by (rule ext) (simp add: hasAttributeValue_def)

lemma identityProviderUrl_try_serviceUrl:
  "identityProviderUrl_try r = serviceUrl_try singleSignOnServicePath r"
  unfolding identityProviderUrl_try_def serviceUrl_try_def Let_def indexKey_eq
    hasAttributeValue_eq locationOf_def selectElement_def bindingUri_def
  by (simp split: sum.splits option.splits list.splits)

lemma logoutUrl_try_serviceUrl:
  "logoutUrl_try r = serviceUrl_try singleLogoutServicePath r"
  unfolding logoutUrl_try_def serviceUrl_try_def Let_def indexKey_eq
    hasAttributeValue_eq locationOf_def selectElement_def bindingUri_def
  by (simp split: sum.splits option.splits list.splits)

lemma identityProviderUrl_serviceUrl:
  "identityProviderUrl r = serviceUrl singleSignOnServicePath r"
  by (simp add: identityProviderUrl_def serviceUrl_def identityProviderUrl_try_serviceUrl)

lemma logoutUrl_serviceUrl:
  "logoutUrl r = serviceUrl singleLogoutServicePath r"
  by (simp add: logoutUrl_def serviceUrl_def logoutUrl_try_serviceUrl)

text \<open>
  C1 at a document with two single-sign-on endpoints and the default binding
  \<open>HTTP-Redirect\<close>. The first endpoint has the POST binding as its \<open>Binding\<close> and the
  redirect binding URI as the value of its \<open>ResponseLocation\<close>; the second is the one whose
  \<open>Binding\<close> is the redirect binding URI. The matcher compares the value of every
  attribute and not the name, so the binding match selects the first endpoint, and
  \<open>identityProviderUrl\<close> returns the location of the POST endpoint, not that of the
  redirect endpoint.
\<close>

theorem binding_match_other_attribute:
  "query responseLocationReader singleSignOnServicePath = Inr [postEndpoint, redirectEndpoint]
   \<and> sortBy [postEndpoint, redirectEndpoint] indexKey = [postEndpoint, redirectEndpoint]
   \<and> bindingAttributeIs (bindingUri responseLocationReader) redirectEndpoint
   \<and> \<not> bindingAttributeIs (bindingUri responseLocationReader) postEndpoint
   \<and> selectElement (bindingUri responseLocationReader) [postEndpoint, redirectEndpoint] = Some postEndpoint
   \<and> identityProviderUrl responseLocationReader = Inr (Str ''https://idp.example.com/post'')"
  by (simp add: responseLocationReader_def postEndpoint_def redirectEndpoint_def example_defs
      identityProviderUrl_def identityProviderUrl_try_def sort_defs indexKey_def
      bindingAttributeIs_def bindingUri_def selectElement_def hasAttributeValue_def)

text \<open>
  C2 at a document whose elements have the indices 1, 2, 10 in document order: the sorted
  order is 1, 10, 2, since the index values are compared as strings. With the default
  binding the operation returns the location of the element with index 10, not that of
  the element with index 2. On indices of one digit the order is the numeric one: 2, 0, 1
  become 0, 1, 2, and elements without an index stay, in document order, with the elements
  of index 0.
\<close>

theorem multi_digit_index_order:
  "query oneTwoTenReader singleSignOnServicePath =
     Inr [indexed ''1'' ''HTTP-POST'' ''https://idp.example.com/one'',
          indexed ''2'' ''HTTP-Redirect'' ''https://idp.example.com/two'',
          indexed ''10'' ''HTTP-Redirect'' ''https://idp.example.com/ten'']
   \<and> sortBy [indexed ''1'' ''HTTP-POST'' ''https://idp.example.com/one'',
          indexed ''2'' ''HTTP-Redirect'' ''https://idp.example.com/two'',
          indexed ''10'' ''HTTP-Redirect'' ''https://idp.example.com/ten''] indexKey =
       [indexed ''1'' ''HTTP-POST'' ''https://idp.example.com/one'',
        indexed ''10'' ''HTTP-Redirect'' ''https://idp.example.com/ten'',
        indexed ''2'' ''HTTP-Redirect'' ''https://idp.example.com/two'']
   \<and> identityProviderUrl oneTwoTenReader = Inr (Str ''https://idp.example.com/ten'')
   \<and> sortBy [indexed ''2'' ''HTTP-POST'' ''https://idp.example.com/two'',
          indexed ''0'' ''HTTP-POST'' ''https://idp.example.com/zero'',
          indexed ''1'' ''HTTP-POST'' ''https://idp.example.com/one''] indexKey =
       [indexed ''0'' ''HTTP-POST'' ''https://idp.example.com/zero'',
        indexed ''1'' ''HTTP-POST'' ''https://idp.example.com/one'',
        indexed ''2'' ''HTTP-POST'' ''https://idp.example.com/two'']
   \<and> sortBy [indexed ''1'' ''HTTP-POST'' ''https://idp.example.com/one'',
          service [(''Location'', ''https://idp.example.com/first'')],
          indexed ''0'' ''HTTP-POST'' ''https://idp.example.com/zero'',
          service [(''Location'', ''https://idp.example.com/second'')]] indexKey =
       [service [(''Location'', ''https://idp.example.com/first'')],
        indexed ''0'' ''HTTP-POST'' ''https://idp.example.com/zero'',
        service [(''Location'', ''https://idp.example.com/second'')],
        indexed ''1'' ''HTTP-POST'' ''https://idp.example.com/one'']"
proof -
  have "StringToNumber ''0'' = Zero" "StringToNumber ''1'' = Positive"
    by (simp_all add: StringToNumber_def trim_def isWhiteSpace_def unsignedDecimal_def
        isDigit_def allZero_def roundsToZero_def Let_def)
  then show ?thesis
    by (simp add: oneTwoTenReader_def example_defs identityProviderUrl_def
        identityProviderUrl_try_def sort_defs indexKey_def)
qed

text \<open>
  C7. For a document without any \<open>SingleSignOnService\<close> element the try block of
  \<open>identityProviderUrl\<close> ends in a TypeError (the first element of the empty list is
  undefined), and the handler catches it: the operation returns undefined when
  \<open>throwExceptions\<close> is false and throws that error when it is true.
\<close>

theorem no_service_elements:
  "query r singleSignOnServicePath = Inr [] \<Longrightarrow>
     identityProviderUrl_try r = Inl TypeError \<and>
     identityProviderUrl r = (if throwExceptions (options r) then Inl TypeError else Inr Undefined)"
  by (simp add: identityProviderUrl_def identityProviderUrl_try_def sortBy_def)

theorem no_service_elements_witness:
  "identityProviderUrl emptyReader = Inr Undefined \<and>
   identityProviderUrl emptyThrowingReader = Inl TypeError"
  using no_service_elements [of emptyReader] no_service_elements [of emptyThrowingReader]
  by (simp add: emptyReader_def emptyThrowingReader_def example_defs)

text \<open>
  C8. \<open>logoutUrl\<close> is \<open>identityProviderUrl\<close> on the reader whose single-sign-on query is
  answered with the single-logout elements: the same sort, binding match with fallback,
  \<open>Location\<close> and failures.
\<close>

theorem logoutUrl_substitutes_elements:
  "logoutUrl r =
     identityProviderUrl
       (r\<lparr>query := (query r)(singleSignOnServicePath := query r singleLogoutServicePath)\<rparr>)"
  by (simp add: logoutUrl_serviceUrl identityProviderUrl_serviceUrl serviceUrl_def
      serviceUrl_try_def bindingUri_def split: sum.splits)

text \<open>
  C9. The sort key of an element with an \<open>index\<close> attribute is the value of that attribute,
  a string; without one it is the number 0. Both endpoint operations sort with this key.
  Two strings are compared as strings, so \<open>10\<close> is before \<open>2\<close>: for the document with the
  indices 2, 10 in document order the sorted order is 10, 2, and both operations return the
  location of the element with index 10.
\<close>

theorem index_key_raw_string:
  "(find (\<lambda>a. name a = ''index'') (attributes el) = Some a \<longrightarrow> indexKey el = KeyStr (value a))
   \<and> (find (\<lambda>a. name a = ''index'') (attributes el) = None \<longrightarrow> indexKey el = KeyZero)
   \<and> (query r singleSignOnServicePath = Inr nodes \<longrightarrow>
        identityProviderUrl_try r =
          locationOf (selectElement (bindingUri r) (sortBy nodes indexKey)))
   \<and> (query r singleLogoutServicePath = Inr nodes \<longrightarrow>
        logoutUrl_try r = locationOf (selectElement (bindingUri r) (sortBy nodes indexKey)))
   \<and> compareAscending (KeyStr ''10'') (KeyStr ''2'') = - 1
   \<and> sortBy [indexed ''2'' ''HTTP-POST'' ''https://idp.example.com/sso/two'',
              indexed ''10'' ''HTTP-POST'' ''https://idp.example.com/sso/ten''] indexKey =
        [indexed ''10'' ''HTTP-POST'' ''https://idp.example.com/sso/ten'',
         indexed ''2'' ''HTTP-POST'' ''https://idp.example.com/sso/two'']
   \<and> identityProviderUrl twoTenReader = Inr (Str ''https://idp.example.com/sso/ten'')
   \<and> logoutUrl twoTenReader = Inr (Str ''https://idp.example.com/slo/ten'')"
proof -
  have "identityProviderUrl twoTenReader = Inr (Str ''https://idp.example.com/sso/ten'')"
    by (simp add: twoTenReader_def example_defs identityProviderUrl_def
        identityProviderUrl_try_def sort_defs)
  moreover have "logoutUrl twoTenReader = Inr (Str ''https://idp.example.com/slo/ten'')"
    by (simp add: twoTenReader_def example_defs logoutUrl_def logoutUrl_try_def sort_defs)
  moreover have "sortBy [indexed ''2'' ''HTTP-POST'' ''https://idp.example.com/sso/two'',
              indexed ''10'' ''HTTP-POST'' ''https://idp.example.com/sso/ten''] indexKey =
        [indexed ''10'' ''HTTP-POST'' ''https://idp.example.com/sso/ten'',
         indexed ''2'' ''HTTP-POST'' ''https://idp.example.com/sso/two'']"
    by (simp add: sort_defs indexKey_def indexed_def service_def)
  moreover have "compareAscending (KeyStr ''10'') (KeyStr ''2'') = - 1"
    by (simp add: compareAscending_def)
  ultimately show ?thesis
    by (simp add: identityProviderUrl_try_serviceUrl logoutUrl_try_serviceUrl serviceUrl_try_def
        indexKey_def)
qed

theorem index_key_raw_string_witness:
  "indexKey (indexed ''10'' ''HTTP-POST'' ''https://idp.example.com/sso/ten'') = KeyStr ''10''
   \<and> indexKey (service [(''Location'', ''https://idp.example.com/sso'')]) = KeyZero
   \<and> identityProviderUrl_try twoTenReader =
       locationOf (selectElement (bindingUri twoTenReader)
         (sortBy [indexed ''2'' ''HTTP-POST'' ''https://idp.example.com/sso/two'',
                  indexed ''10'' ''HTTP-POST'' ''https://idp.example.com/sso/ten''] indexKey))"
  using index_key_raw_string [of "indexed ''10'' ''HTTP-POST'' ''https://idp.example.com/sso/ten''"
      "\<lparr>name = ''index'', value = ''10''\<rparr>" twoTenReader
      "[indexed ''2'' ''HTTP-POST'' ''https://idp.example.com/sso/two'',
        indexed ''10'' ''HTTP-POST'' ''https://idp.example.com/sso/ten'']"]
    index_key_raw_string [of "service [(''Location'', ''https://idp.example.com/sso'')]"]
  by (simp add: twoTenReader_def example_defs)

subsection \<open>The handlers\<close>

text \<open>
  C3, as amended. For entityID, identifierFormat, identityProviderUrl, logoutUrl and the four
  certificate operations: when the try block ends in an error, the operation returns
  undefined (the absent value) if \<open>throwExceptions\<close> is false, and throws that same error
  if it is true; an error of a list operation reaches the caller of the single-certificate
  operation unchanged. For claimSchema an error of the enumeration is thrown unchanged if
  \<open>throwExceptions\<close> is true, and gives the empty mapping if it is false. An error of the
  query is an error of the try block.
\<close>

theorem fail_soft_contract:
  "(entityID_try r = Inl e \<longrightarrow>
      entityID r = (if throwExceptions (options r) then Inl e else Inr Undefined))
   \<and> (identifierFormat_try r = Inl e \<longrightarrow>
      identifierFormat r = (if throwExceptions (options r) then Inl e else Inr Undefined))
   \<and> (identityProviderUrl_try r = Inl e \<longrightarrow>
      identityProviderUrl r = (if throwExceptions (options r) then Inl e else Inr Undefined))
   \<and> (logoutUrl_try r = Inl e \<longrightarrow>
      logoutUrl r = (if throwExceptions (options r) then Inl e else Inr Undefined))
   \<and> (encryptionCerts_try t r = Inl e \<longrightarrow>
      encryptionCerts t r = (if throwExceptions (options r) then Inl e else Inr None)
      \<and> encryptionCert t r = (if throwExceptions (options r) then Inl e else Inr Undefined))
   \<and> (signingCerts_try t r = Inl e \<longrightarrow>
      signingCerts t r = (if throwExceptions (options r) then Inl e else Inr None)
      \<and> signingCert t r = (if throwExceptions (options r) then Inl e else Inr Undefined))
   \<and> (encryptionCert_try t r = Inl e \<longrightarrow>
      encryptionCert t r = (if throwExceptions (options r) then Inl e else Inr Undefined))
   \<and> (signingCert_try t r = Inl e \<longrightarrow>
      signingCert t r = (if throwExceptions (options r) then Inl e else Inr Undefined))
   \<and> (claimSchema_try r = Inl e \<longrightarrow>
      claimSchema r = (if throwExceptions (options r) then Inl e else Inr (Some Map.empty)))
   \<and> (query r ''//md:EntityDescriptor/@entityID'' = Inl e \<longrightarrow> entityID_try r = Inl e)
   \<and> (query r ''//md:IDPSSODescriptor/md:NameIDFormat/text()'' = Inl e \<longrightarrow>
        identifierFormat_try r = Inl e)
   \<and> (query r singleSignOnServicePath = Inl e \<longrightarrow> identityProviderUrl_try r = Inl e)
   \<and> (query r singleLogoutServicePath = Inl e \<longrightarrow> logoutUrl_try r = Inl e)
   \<and> (query r encryptionCertPath = Inl e \<longrightarrow> encryptionCerts_try t r = Inl e)
   \<and> (query r signingCertPath = Inl e \<longrightarrow> signingCerts_try t r = Inl e)
   \<and> (query r claimNamePath = Inl e \<longrightarrow> claimSchema_try r = Inl e)"
proof -
  have "encryptionCert t r = (if throwExceptions (options r) then Inl e else Inr Undefined)"
    if "encryptionCerts_try t r = Inl e"
    using that
    by (simp add: encryptionCert_def encryptionCert_try_def encryptionCerts_def firstTrimmed_def)
  moreover have "signingCert t r = (if throwExceptions (options r) then Inl e else Inr Undefined)"
    if "signingCerts_try t r = Inl e"
    using that
    by (simp add: signingCert_def signingCert_try_def signingCerts_def firstTrimmed_def)
  ultimately show ?thesis
    by (simp add: entityID_def identifierFormat_def identityProviderUrl_def logoutUrl_def
        encryptionCerts_def signingCerts_def encryptionCert_def signingCert_def claimSchema_def
        entityID_try_def identifierFormat_try_def identityProviderUrl_try_def logoutUrl_try_def
        encryptionCerts_try_def signingCerts_try_def claimSchema_try_def)
qed

theorem fail_soft_contract_witness:
  "entityID failingReader = Inr Undefined
   \<and> identifierFormat failingReader = Inr Undefined
   \<and> identityProviderUrl failingReader = Inr Undefined
   \<and> logoutUrl failingReader = Inr Undefined
   \<and> encryptionCerts True failingReader = Inr None
   \<and> encryptionCert True failingReader = Inr Undefined
   \<and> signingCerts True failingReader = Inr None
   \<and> signingCert True failingReader = Inr Undefined
   \<and> claimSchema failingReader = Inr (Some Map.empty)
   \<and> entityID failingThrowingReader = Inl (EngineError ''cannot evaluate'')
   \<and> identifierFormat failingThrowingReader = Inl (EngineError ''cannot evaluate'')
   \<and> identityProviderUrl failingThrowingReader = Inl (EngineError ''cannot evaluate'')
   \<and> logoutUrl failingThrowingReader = Inl (EngineError ''cannot evaluate'')
   \<and> encryptionCerts True failingThrowingReader = Inl (EngineError ''cannot evaluate'')
   \<and> encryptionCert True failingThrowingReader = Inl (EngineError ''cannot evaluate'')
   \<and> signingCerts True failingThrowingReader = Inl (EngineError ''cannot evaluate'')
   \<and> signingCert True failingThrowingReader = Inl (EngineError ''cannot evaluate'')
   \<and> claimSchema failingThrowingReader = Inl (EngineError ''cannot evaluate'')"
proof -
  have q: "query failingReader p = Inl (EngineError ''cannot evaluate'')"
    "query failingThrowingReader p = Inl (EngineError ''cannot evaluate'')"
    "\<not> throwExceptions (options failingReader)"
    "throwExceptions (options failingThrowingReader)" for p
    by (simp_all add: failingReader_def failingThrowingReader_def example_defs)
  from fail_soft_contract [of failingReader "EngineError ''cannot evaluate''" True]
    fail_soft_contract [of failingThrowingReader "EngineError ''cannot evaluate''" True]
  show ?thesis by (simp add: q)
qed

text \<open>
  C3 as stated fails for claimSchema: on the engine that throws on every query, with
  \<open>throwExceptions\<close> false, the try block ends in an error and the operation returns the
  empty mapping, not undefined.
\<close>

theorem claimSchema_not_absent_counterexample:
  "claimSchema_try failingReader = Inl (EngineError ''cannot evaluate'')
   \<and> throwExceptions (options failingReader) = False
   \<and> claimSchema failingReader = Inr (Some Map.empty)
   \<and> claimSchema failingReader \<noteq> Inr None"
  by (simp add: claimSchema_def claimSchema_try_def failingReader_def example_defs)

subsection \<open>The loop of claimSchema\<close>

lemma claim_try_key: "claim_try r n = Inr (k, c) \<Longrightarrow> k = claimKey n"
  by (auto simp: claim_try_def claimKey_def Let_def split: sum.splits list.splits)

lemma friendlyNameQuery_key: "friendlyNameQuery (node_value n) = friendlyNameQuery (Str (claimKey n))"
  by (simp add: friendlyNameQuery_def claimKey_def)

lemma claim_try_fails_iff:
  "(\<exists>e. claim_try r n = Inl e) \<longleftrightarrow>
     (\<exists>e. query r (friendlyNameQuery (Str (claimKey n))) = Inl e) \<or>
     query r (friendlyNameQuery (Str (claimKey n))) = Inr []"
  by (auto simp: claim_try_def Let_def friendlyNameQuery_key split: sum.splits list.splits)

lemma claim_try_same_key:
  "claimKey n = claimKey m \<Longrightarrow> claim_try r n = Inl e \<Longrightarrow> \<exists>e'. claim_try r m = Inl e'"
  using claim_try_fails_iff [of r n] claim_try_fails_iff [of r m] by auto

lemma claim_try_attr:
  "claim_try r (AttrNode a) = Inr (k, c) \<Longrightarrow> claim_try r (AttrNode b) = Inr (k, c') \<Longrightarrow> c' = c"
  by (auto simp: claim_try_def Let_def split: sum.splits list.splits)

text \<open>Without \<open>throwExceptions\<close> the loop of \<open>claimSchema\<close> returns a mapping.\<close>

lemma reduce_returns:
  "\<not> throwExceptions (options r) \<Longrightarrow> \<exists>claims. reduce (claim_step r) acc nodes = Inr claims"
proof (induction nodes arbitrary: acc)
  case Nil
  then show ?case by simp
next
  case (Cons n nodes)
  then show ?case
    by (cases "claim_try r n") (auto simp: claim_step_def)
qed

text \<open>A key of the result was in the initial mapping, or is the key of a node that resolved.\<close>

lemma reduce_dom:
  "reduce (claim_step r) acc nodes = Inr claims \<Longrightarrow> claims k = Some c \<Longrightarrow>
     acc k = Some c \<or> (\<exists>n\<in>set nodes. claim_try r n = Inr (k, c))"
proof (induction nodes arbitrary: acc)
  case Nil
  then show ?case by simp
next
  case (Cons n nodes)
  from Cons.prems(1) obtain acc' where
    step: "claim_step r acc n = Inr acc'" and rest: "reduce (claim_step r) acc' nodes = Inr claims"
    by (auto split: sum.splits)
  from Cons.IH [OF rest Cons.prems(2)]
  have "acc' k = Some c \<or> (\<exists>m\<in>set nodes. claim_try r m = Inr (k, c))" .
  moreover have "acc' k = Some c \<Longrightarrow> acc k = Some c \<or> claim_try r n = Inr (k, c)"
    using step
    by (auto simp: claim_step_def assign_def split: sum.splits if_splits prod.splits)
  ultimately show ?case by auto
qed

lemma reduce_omits:
  assumes "reduce (claim_step r) Map.empty nodes = Inr claims"
    and "n \<in> set nodes" and "claim_try r n = Inl e"
  shows "claims (claimKey n) = None"
proof (rule ccontr)
  assume "claims (claimKey n) \<noteq> None"
  then obtain c where "claims (claimKey n) = Some c" by auto
  from reduce_dom [OF assms(1) this]
  obtain m where "m \<in> set nodes" and m: "claim_try r m = Inr (claimKey n, c)" by auto
  from claim_try_key [OF m] have "claimKey n = claimKey m" .
  from claim_try_same_key [OF this assms(3)] m show False by auto
qed

text \<open>An entry stays when every later node with its key resolves to the same claim.\<close>

lemma reduce_keeps_entry:
  "\<not> throwExceptions (options r) \<Longrightarrow> reduce (claim_step r) acc nodes = Inr claims \<Longrightarrow>
     acc k = Some c \<Longrightarrow> \<forall>m\<in>set nodes. \<forall>c'. claim_try r m = Inr (k, c') \<longrightarrow> c' = c \<Longrightarrow>
     claims k = Some c"
proof (induction nodes arbitrary: acc)
  case Nil
  then show ?case by simp
next
  case (Cons n nodes)
  from Cons.prems(2) obtain acc' where
    step: "claim_step r acc n = Inr acc'" and rest: "reduce (claim_step r) acc' nodes = Inr claims"
    by (auto split: sum.splits)
  have "acc' k = Some c"
    using step Cons.prems(3,4)
    by (auto simp: claim_step_def assign_def split: sum.splits if_splits prod.splits)
  with Cons.IH [OF Cons.prems(1) rest] Cons.prems(4) show ?case by simp
qed

lemma reduce_keeps:
  "\<not> throwExceptions (options r) \<Longrightarrow> \<forall>n\<in>set nodes. \<exists>a. n = AttrNode a \<Longrightarrow>
     reduce (claim_step r) acc nodes = Inr claims \<Longrightarrow>
     n \<in> set nodes \<Longrightarrow> claim_try r n = Inr (k, c) \<Longrightarrow> k \<noteq> ''__proto__'' \<Longrightarrow>
     claims k = Some c"
proof (induction nodes arbitrary: acc)
  case Nil
  then show ?case by simp
next
  case (Cons x nodes)
  from Cons.prems(3) obtain acc' where
    step: "claim_step r acc x = Inr acc'" and rest: "reduce (claim_step r) acc' nodes = Inr claims"
    by (auto split: sum.splits)
  have attrs: "\<forall>m\<in>set nodes. \<exists>a. m = AttrNode a" using Cons.prems(2) by simp
  show ?case
  proof (cases "n \<in> set nodes")
    case True
    from Cons.IH [OF Cons.prems(1) attrs rest True Cons.prems(5,6)] show ?thesis .
  next
    case False
    with Cons.prems(4) have nx: "x = n" by simp
    then have acc': "acc' k = Some c"
      using step Cons.prems(5,6) by (auto simp: claim_step_def assign_def)
    obtain a where a: "n = AttrNode a" using Cons.prems(2) nx by auto
    have "\<forall>m\<in>set nodes. \<forall>c'. claim_try r m = Inr (k, c') \<longrightarrow> c' = c"
    proof (intro ballI allI impI)
      fix m c'
      assume "m \<in> set nodes" and m: "claim_try r m = Inr (k, c')"
      then obtain b where "m = AttrNode b" using attrs by auto
      with m Cons.prems(5) a show "c' = c" using claim_try_attr by blast
    qed
    from reduce_keeps_entry [OF Cons.prems(1) rest acc' this] show ?thesis .
  qed
qed

text \<open>With \<open>throwExceptions\<close> the first error ends the loop.\<close>

lemma reduce_throws:
  "throwExceptions (options r) \<Longrightarrow> \<forall>m\<in>set pre. \<exists>kc. claim_try r m = Inr kc \<Longrightarrow>
     claim_try r n = Inl e \<Longrightarrow> reduce (claim_step r) acc (pre @ n # post) = Inl e"
proof (induction pre arbitrary: acc)
  case Nil
  then show ?case by (simp add: claim_step_def)
next
  case (Cons m pre)
  then show ?case by (auto simp: claim_step_def)
qed

text \<open>Without \<open>throwExceptions\<close> the nodes whose lookup fails leave the loop as it is.\<close>

lemma reduce_filter:
  "\<not> throwExceptions (options r) \<Longrightarrow>
     reduce (claim_step r) acc nodes =
       reduce (claim_step r) acc (filter (\<lambda>n. \<not> isl (claim_try r n)) nodes)"
proof (induction nodes arbitrary: acc)
  case Nil
  then show ?case by simp
next
  case (Cons n nodes)
  show ?case
  proof (cases "claim_try r n")
    case (Inl e)
    with Cons show ?thesis by (simp add: claim_step_def)
  next
    case (Inr kc)
    with Cons show ?thesis by (simp split: sum.splits)
  qed
qed

text \<open>
  What holds of the loop for every document. Let the enumeration of the names return a list
  of nodes. With \<open>throwExceptions\<close> false claimSchema returns a mapping: the one that the
  loop builds from the nodes whose lookup succeeds alone. It has no entry for the key of a
  node whose lookup failed, and, the nodes being attribute nodes, it has the claim of every
  node whose lookup succeeded and whose key is not \<open>__proto__\<close>. With \<open>throwExceptions\<close>
  true the error of the first node whose lookup fails is thrown, and no mapping is
  returned. When the enumeration itself fails and \<open>throwExceptions\<close> is false, claimSchema
  returns the empty mapping.
\<close>

lemma claimSchema_loop:
  "(query r claimNamePath = Inr nodes \<and> \<not> throwExceptions (options r) \<longrightarrow>
      (\<exists>claims. claimSchema r = Inr (Some claims)
         \<and> reduce (claim_step r) Map.empty (filter (\<lambda>n. \<not> isl (claim_try r n)) nodes) =
             Inr claims
         \<and> (\<forall>n\<in>set nodes. \<forall>e. claim_try r n = Inl e \<longrightarrow> claims (claimKey n) = None)
         \<and> ((\<forall>n\<in>set nodes. \<exists>a. n = AttrNode a) \<longrightarrow>
              (\<forall>n\<in>set nodes. \<forall>k c. claim_try r n = Inr (k, c) \<and> k \<noteq> ''__proto__'' \<longrightarrow>
                 claims k = Some c))))
   \<and> (query r claimNamePath = Inr (pre @ n # post) \<and> throwExceptions (options r)
        \<and> (\<forall>m\<in>set pre. \<exists>kc. claim_try r m = Inr kc) \<and> claim_try r n = Inl e \<longrightarrow>
        claimSchema r = Inl e)
   \<and> (query r claimNamePath = Inl e \<and> \<not> throwExceptions (options r) \<longrightarrow>
        claimSchema r = Inr (Some Map.empty))"
proof (intro conjI impI)
  assume a: "query r claimNamePath = Inr nodes \<and> \<not> throwExceptions (options r)"
  then obtain claims where red: "reduce (claim_step r) Map.empty nodes = Inr claims"
    using reduce_returns by blast
  with a have cs: "claimSchema r = Inr (Some claims)"
    by (simp add: claimSchema_def claimSchema_try_def)
  have om: "\<forall>n\<in>set nodes. \<forall>e. claim_try r n = Inl e \<longrightarrow> claims (claimKey n) = None"
    using reduce_omits [OF red] by blast
  have ke: "(\<forall>n\<in>set nodes. \<exists>a. n = AttrNode a) \<longrightarrow>
              (\<forall>n\<in>set nodes. \<forall>k c. claim_try r n = Inr (k, c) \<and> k \<noteq> ''__proto__'' \<longrightarrow>
                 claims k = Some c)"
    using reduce_keeps [OF _ _ red] a by blast
  have fi: "reduce (claim_step r) Map.empty (filter (\<lambda>n. \<not> isl (claim_try r n)) nodes) =
             Inr claims"
    using reduce_filter [of r Map.empty nodes] a red by simp
  from cs fi om ke show "\<exists>claims. claimSchema r = Inr (Some claims)
         \<and> reduce (claim_step r) Map.empty (filter (\<lambda>n. \<not> isl (claim_try r n)) nodes) =
             Inr claims
         \<and> (\<forall>n\<in>set nodes. \<forall>e. claim_try r n = Inl e \<longrightarrow> claims (claimKey n) = None)
         \<and> ((\<forall>n\<in>set nodes. \<exists>a. n = AttrNode a) \<longrightarrow>
              (\<forall>n\<in>set nodes. \<forall>k c. claim_try r n = Inr (k, c) \<and> k \<noteq> ''__proto__'' \<longrightarrow>
                 claims k = Some c))"
    by blast
next
  assume a: "query r claimNamePath = Inr (pre @ n # post) \<and> throwExceptions (options r)
        \<and> (\<forall>m\<in>set pre. \<exists>kc. claim_try r m = Inr kc) \<and> claim_try r n = Inl e"
  then have "reduce (claim_step r) Map.empty (pre @ n # post) = Inl e"
    using reduce_throws by blast
  with a show "claimSchema r = Inl e"
    by (simp add: claimSchema_def claimSchema_try_def)
next
  assume "query r claimNamePath = Inl e \<and> \<not> throwExceptions (options r)"
  then show "claimSchema r = Inr (Some Map.empty)"
    by (simp add: claimSchema_def claimSchema_try_def)
qed

lemma camelCase_examples:
  "camelCase ''Email Address'' = ''emailAddress''"
  "camelCase ''Full Name'' = ''fullName''"
  "camelCase ''Sample'' = ''sample''"
  by code_simp+

lemmas claim_defs = claim_try_def claimKey_def friendlyNameQuery_def nameNode_def friendlyName_def
  Let_def camelCase_examples

lemmas claimSchema_defs = claimSchema_def claimSchema_try_def claim_step_def assign_def

lemma claim_try_camelCase:
  "claim_try r n = Inr (k, c) \<Longrightarrow>
     claim_camelCase c = camelCase (lodash_toString (claim_description c))"
  by (auto simp: claim_try_def Let_def split: sum.splits list.splits)

text \<open>
  C4 at two documents. For the claims \<open>urn:email\<close>, \<open>urn:role\<close> (without a
  \<open>FriendlyName\<close>) and \<open>urn:name\<close> the mapping omits \<open>urn:role\<close> and keeps the two others
  with \<open>throwExceptions\<close> false, and the operation throws with \<open>throwExceptions\<close> true.
  With \<open>throwExceptions\<close> false and the claims \<open>urn:email\<close>, \<open>urn:role\<close> (without a
  \<open>FriendlyName\<close>) and \<open>__proto__\<close> the lookup of \<open>__proto__\<close> succeeds, and yet the mapping
  has the entry of \<open>urn:email\<close> alone: the claim of \<open>__proto__\<close> is not kept.
\<close>

theorem claimSchema_proto_name:
  "claimSchema missingFriendlyNameReader =
      Inr (Some [''urn:email'' \<mapsto> emailClaim, ''urn:name'' \<mapsto> nameClaim])
   \<and> claimSchema missingFriendlyNameThrowingReader = Inl TypeError
   \<and> query protoNameReader claimNamePath =
       Inr [nameNode ''urn:email'', nameNode ''urn:role'', nameNode ''__proto__'']
   \<and> throwExceptions (options protoNameReader) = False
   \<and> claim_try protoNameReader (nameNode ''urn:email'') = Inr (''urn:email'', emailClaim)
   \<and> claim_try protoNameReader (nameNode ''urn:role'') = Inl TypeError
   \<and> claim_try protoNameReader (nameNode ''__proto__'') = Inr (''__proto__'', protoClaim)
   \<and> claimSchema protoNameReader = Inr (Some [''urn:email'' \<mapsto> emailClaim])"
proof -
  have "camelCase ''Prototype'' = ''prototype''"
    by code_simp
  then show ?thesis
    by (simp add: claimSchema_defs missingFriendlyNameReader_def
        missingFriendlyNameThrowingReader_def missingFriendlyName_def
        protoNameReader_def emailClaim_def nameClaim_def protoClaim_def example_defs claim_defs)
qed

subsection \<open>Certificates\<close>

lemma array_map_certText_True:
  "map firstChild nodes = map (\<lambda>d. Some (CharacterData d)) texts \<Longrightarrow>
     array_map (certText True) nodes = Inr (map (\<lambda>d. Str (replace_whitespace d)) texts)"
proof (induction nodes arbitrary: texts)
  case Nil
  then show ?case by simp
next
  case (Cons n nodes)
  then obtain d ds where "texts = d # ds" by (cases texts) auto
  with Cons show ?case by (simp add: certText_def)
qed

lemma array_map_certText_False:
  "map firstChild nodes = map (\<lambda>d. Some (CharacterData d)) texts \<Longrightarrow>
     array_map (certText False) nodes = Inr (map Str texts)"
proof (induction nodes arbitrary: texts)
  case Nil
  then show ?case by simp
next
  case (Cons n nodes)
  then obtain d ds where "texts = d # ds" by (cases texts) auto
  with Cons show ?case by (simp add: certText_def)
qed

lemma firstTrimmed_Str:
  "texts \<noteq> [] \<Longrightarrow> firstTrimmed (Some (map (\<lambda>d. Str (f d)) texts)) = Inr (Str (trim (f (hd texts))))"
  by (cases texts) (simp_all add: firstTrimmed_def)

lemma replace_whitespace_none: "\<forall>c\<in>set (replace_whitespace d). \<not> isWhiteSpace c"
  by (simp add: replace_whitespace_def)

lemma trim_decomposition:
  "\<exists>l t. d = l @ trim d @ t \<and> list_all isWhiteSpace l \<and> list_all isWhiteSpace t"
proof -
  let ?m = "dropWhile isWhiteSpace d"
  have "d = takeWhile isWhiteSpace d @ ?m" by simp
  moreover have "rev ?m = takeWhile isWhiteSpace (rev ?m) @ dropWhile isWhiteSpace (rev ?m)"
    by simp
  then have "?m = trim d @ rev (takeWhile isWhiteSpace (rev ?m))"
    unfolding trim_def by (metis rev_append rev_rev_ident)
  ultimately have "d = takeWhile isWhiteSpace d @ trim d @ rev (takeWhile isWhiteSpace (rev ?m))"
    by simp
  moreover have "list_all isWhiteSpace (takeWhile isWhiteSpace d)"
    by (simp add: list_all_iff) (meson set_takeWhileD)
  moreover have "list_all isWhiteSpace (rev (takeWhile isWhiteSpace (rev ?m)))"
    by (simp add: list_all_iff) (meson set_takeWhileD)
  ultimately show ?thesis by blast
qed

lemma trim_ends:
  assumes "trim d \<noteq> []"
  shows "\<not> isWhiteSpace (hd (trim d)) \<and> \<not> isWhiteSpace (last (trim d))"
proof -
  let ?m = "dropWhile isWhiteSpace d"
  let ?k = "dropWhile isWhiteSpace (rev ?m)"
  have k: "?k \<noteq> []" using assms by (simp add: trim_def)
  then have "\<not> isWhiteSpace (hd ?k)" by (rule hd_dropWhile)
  then have l: "\<not> isWhiteSpace (last (trim d))"
    using k by (simp add: trim_def last_rev)
  have "rev ?m = takeWhile isWhiteSpace (rev ?m) @ ?k" by simp
  then have "?m = rev ?k @ rev (takeWhile isWhiteSpace (rev ?m))"
    by (metis rev_append rev_rev_ident)
  then have "hd ?m = hd (rev ?k)" using k by (metis hd_append2 rev_is_Nil_conv)
  moreover have "?m \<noteq> []"
  proof
    assume a: "?m = []"
    have "?k = []" unfolding a by simp
    with k show False by blast
  qed
  then have "\<not> isWhiteSpace (hd ?m)" by (rule hd_dropWhile)
  ultimately have "\<not> isWhiteSpace (hd (trim d))" by (simp add: trim_def)
  with l show ?thesis by simp
qed

text \<open>
  C5. Let the certificate query return nodes whose first children are the texts. With
  \<open>trimNewLines\<close> true the list operations return every text without its whitespace
  characters, wherever they stand: the result is the text with exactly the whitespace
  characters removed, and space, tab, carriage return and line feed are whitespace. With
  \<open>trimNewLines\<close> false they return the texts as they are. The single-certificate
  operations return the first element of the list with the whitespace at both ends removed,
  whatever the flag: the text is some whitespace, the result, and some whitespace, and the
  result neither starts nor ends with whitespace.
\<close>

theorem certificate_whitespace:
  "(query r encryptionCertPath = Inr nodes
      \<and> map firstChild nodes = map (\<lambda>d. Some (CharacterData d)) texts \<longrightarrow>
        encryptionCerts True r = Inr (Some (map (\<lambda>d. Str (replace_whitespace d)) texts))
      \<and> encryptionCerts False r = Inr (Some (map Str texts))
      \<and> (texts \<noteq> [] \<longrightarrow>
           encryptionCert True r = Inr (Str (trim (replace_whitespace (hd texts))))
         \<and> encryptionCert False r = Inr (Str (trim (hd texts)))))
   \<and> (query r signingCertPath = Inr nodes
      \<and> map firstChild nodes = map (\<lambda>d. Some (CharacterData d)) texts \<longrightarrow>
        signingCerts True r = Inr (Some (map (\<lambda>d. Str (replace_whitespace d)) texts))
      \<and> signingCerts False r = Inr (Some (map Str texts))
      \<and> (texts \<noteq> [] \<longrightarrow>
           signingCert True r = Inr (Str (trim (replace_whitespace (hd texts))))
         \<and> signingCert False r = Inr (Str (trim (hd texts)))))
   \<and> replace_whitespace d = filter (\<lambda>c. \<not> isWhiteSpace c) d
   \<and> (\<forall>c\<in>set (replace_whitespace d). \<not> isWhiteSpace c)
   \<and> isWhiteSpace CHR '' '' \<and> isWhiteSpace CHR 0x09 \<and> isWhiteSpace CHR 0x0D
   \<and> isWhiteSpace CHR 0x0A
   \<and> (\<exists>l t. d = l @ trim d @ t \<and> list_all isWhiteSpace l \<and> list_all isWhiteSpace t)
   \<and> (trim d \<noteq> [] \<longrightarrow> \<not> isWhiteSpace (hd (trim d)) \<and> \<not> isWhiteSpace (last (trim d)))"
proof -
  have enc: "encryptionCerts True r = Inr (Some (map (\<lambda>d. Str (replace_whitespace d)) texts))
      \<and> encryptionCerts False r = Inr (Some (map Str texts))
      \<and> (texts \<noteq> [] \<longrightarrow>
           encryptionCert True r = Inr (Str (trim (replace_whitespace (hd texts))))
         \<and> encryptionCert False r = Inr (Str (trim (hd texts))))"
    if "query r encryptionCertPath = Inr nodes"
      and "map firstChild nodes = map (\<lambda>d. Some (CharacterData d)) texts"
  proof -
    have t: "encryptionCerts True r = Inr (Some (map (\<lambda>d. Str (replace_whitespace d)) texts))"
      using that array_map_certText_True [of nodes texts]
      by (simp add: encryptionCerts_def encryptionCerts_try_def)
    have f: "encryptionCerts False r = Inr (Some (map (\<lambda>d. Str (id d)) texts))"
      using that array_map_certText_False [of nodes texts]
      by (simp add: encryptionCerts_def encryptionCerts_try_def)
    have "encryptionCert True r = Inr (Str (trim (replace_whitespace (hd texts))))"
      "encryptionCert False r = Inr (Str (trim (hd texts)))" if "texts \<noteq> []"
      using firstTrimmed_Str [OF that, of replace_whitespace] firstTrimmed_Str [OF that, of id]
      unfolding encryptionCert_def encryptionCert_try_def t f by simp_all
    with t f show ?thesis by simp
  qed
  have sig: "signingCerts True r = Inr (Some (map (\<lambda>d. Str (replace_whitespace d)) texts))
      \<and> signingCerts False r = Inr (Some (map Str texts))
      \<and> (texts \<noteq> [] \<longrightarrow>
           signingCert True r = Inr (Str (trim (replace_whitespace (hd texts))))
         \<and> signingCert False r = Inr (Str (trim (hd texts))))"
    if "query r signingCertPath = Inr nodes"
      and "map firstChild nodes = map (\<lambda>d. Some (CharacterData d)) texts"
  proof -
    have t: "signingCerts True r = Inr (Some (map (\<lambda>d. Str (replace_whitespace d)) texts))"
      using that array_map_certText_True [of nodes texts]
      by (simp add: signingCerts_def signingCerts_try_def)
    have f: "signingCerts False r = Inr (Some (map (\<lambda>d. Str (id d)) texts))"
      using that array_map_certText_False [of nodes texts]
      by (simp add: signingCerts_def signingCerts_try_def)
    have "signingCert True r = Inr (Str (trim (replace_whitespace (hd texts))))"
      "signingCert False r = Inr (Str (trim (hd texts)))" if "texts \<noteq> []"
      using firstTrimmed_Str [OF that, of replace_whitespace] firstTrimmed_Str [OF that, of id]
      unfolding signingCert_def signingCert_try_def t f by simp_all
    with t f show ?thesis by simp
  qed
  have ws: "isWhiteSpace CHR '' '' \<and> isWhiteSpace CHR 0x09 \<and> isWhiteSpace CHR 0x0D
      \<and> isWhiteSpace CHR 0x0A"
    by (simp add: isWhiteSpace_def)
  from enc sig ws replace_whitespace_none [of d] trim_decomposition [of d] trim_ends [of d]
  show ?thesis
    unfolding replace_whitespace_def [of d, symmetric] by (simp add: replace_whitespace_def [symmetric])
qed

theorem certificate_whitespace_witness:
  "encryptionCerts True certificateReader = Inr (Some [Str ''MIICAbCd''])
   \<and> encryptionCerts False certificateReader = Inr (Some [Str certificateText])
   \<and> encryptionCert True certificateReader = Inr (Str ''MIICAbCd'')
   \<and> encryptionCert False certificateReader =
       Inr (Str (''MIIC'' @ [CHR 0x0D, CHR 0x0A] @ ''Ab Cd''))
   \<and> signingCerts True certificateReader = Inr (Some [Str ''MIICAbCd''])
   \<and> signingCerts False certificateReader = Inr (Some [Str certificateText])
   \<and> signingCert True certificateReader = Inr (Str ''MIICAbCd'')
   \<and> signingCert False certificateReader =
       Inr (Str (''MIIC'' @ [CHR 0x0D, CHR 0x0A] @ ''Ab Cd''))"
proof -
  have q: "query certificateReader encryptionCertPath = Inr [Element [] [CharacterData certificateText]]"
    "query certificateReader signingCertPath = Inr [Element [] [CharacterData certificateText]]"
    by (simp_all add: certificateReader_def certificateDocument_def example_defs)
  have e: "replace_whitespace certificateText = ''MIICAbCd''"
    "trim certificateText = ''MIIC'' @ [CHR 0x0D, CHR 0x0A] @ ''Ab Cd''"
    "trim ''MIICAbCd'' = ''MIICAbCd''"
    by (simp_all add: certificateText_def replace_whitespace_def trim_def isWhiteSpace_def)
  from certificate_whitespace
      [of certificateReader "[Element [] [CharacterData certificateText]]" "[certificateText]"] q
  show ?thesis by (simp add: e)
qed

subsection \<open>The normalized key\<close>

lemma words_delimiter: "isDelimiter c \<Longrightarrow> words (c # cs) = words cs"
  by (simp only: words.simps if_True)

lemma words_start:
  "\<not> isDelimiter c \<Longrightarrow> words (c # cs) =
      (c # takeWhile (\<lambda>d. \<not> isDelimiter d) cs) # words (dropWhile (\<lambda>d. \<not> isDelimiter d) cs)"
  by (simp only: words.simps if_False)

lemma words_no_delimiter: "w \<in> set (words s) \<Longrightarrow> ch \<in> set w \<Longrightarrow> \<not> isDelimiter ch"
proof (induction s arbitrary: w ch rule: words.induct)
  case 1
  from 1(1) have False by (simp only: words.simps list.set empty_iff)
  then show ?case ..
next
  case (2 c cs)
  show ?case
  proof (cases "isDelimiter c")
    case True
    from 2(3) have "w \<in> set (words cs)" by (simp only: words_delimiter [OF True])
    from 2(1) [OF True this 2(4)] show ?thesis .
  next
    case False
    from 2(3) have "w = c # takeWhile (\<lambda>d. \<not> isDelimiter d) cs
        \<or> w \<in> set (words (dropWhile (\<lambda>d. \<not> isDelimiter d) cs))"
      by (simp only: words_start [OF False] set_ConsD list.set insert_iff)
    then show ?thesis
    proof
      assume "w = c # takeWhile (\<lambda>d. \<not> isDelimiter d) cs"
      with 2(4) have "ch = c \<or> ch \<in> set (takeWhile (\<lambda>d. \<not> isDelimiter d) cs)"
        by (simp only: list.set insert_iff)
      then show ?thesis
      proof
        assume "ch = c"
        with False show ?thesis by blast
      next
        assume "ch \<in> set (takeWhile (\<lambda>d. \<not> isDelimiter d) cs)"
        from set_takeWhileD [OF this] show ?thesis by (rule conjunct2)
      qed
    next
      assume "w \<in> set (words (dropWhile (\<lambda>d. \<not> isDelimiter d) cs))"
      from 2(2) [OF False this 2(4)] show ?thesis .
    qed
  qed
qed

lemma isDelimiter_code:
  "isDelimiter ch \<longleftrightarrow>
     (of_char ch :: nat) = 32 \<or> (of_char ch :: nat) = 45 \<or> (of_char ch :: nat) = 95"
proof -
  have "(of_char ch :: nat) = 32 \<longleftrightarrow> ch = CHR '' ''"
    using of_char_eq_iff [of ch "CHR '' ''", where ?'a = nat] by simp
  moreover have "(of_char ch :: nat) = 45 \<longleftrightarrow> ch = CHR ''-''"
    using of_char_eq_iff [of ch "CHR ''-''", where ?'a = nat] by simp
  moreover have "(of_char ch :: nat) = 95 \<longleftrightarrow> ch = CHR ''_''"
    using of_char_eq_iff [of ch "CHR ''_''", where ?'a = nat] by simp
  ultimately show ?thesis unfolding isDelimiter_def by blast
qed

lemma toLower_code:
  "(of_char (toLower ch) :: nat) =
     (if 65 \<le> (of_char ch :: nat) \<and> (of_char ch :: nat) \<le> 90
      then of_char ch + 32 else of_char ch)"
  by (simp add: toLower_def)

lemma upper_code_in_range:
  "97 \<le> (of_char ch :: nat) \<and> (of_char ch :: nat) \<le> 122 \<Longrightarrow>
     (of_char ch - 32 :: nat) mod 256 = of_char ch - 32"
  by (rule mod_less) arith

lemma toUpper_code:
  "(of_char (toUpper ch) :: nat) =
     (if 97 \<le> (of_char ch :: nat) \<and> (of_char ch :: nat) \<le> 122
      then of_char ch - 32 else of_char ch)"
  using upper_code_in_range [of ch] by (simp add: toUpper_def)

lemma toLower_no_delimiter:
  assumes "\<not> isDelimiter ch"
  shows "\<not> isDelimiter (toLower ch)"
proof -
  define x y where "x = (of_char ch :: nat)" and "y = (of_char (toLower ch) :: nat)"
  have "y = (if 65 \<le> x \<and> x \<le> 90 then x + 32 else x)"
    unfolding x_def y_def by (rule toLower_code)
  moreover have "x \<noteq> 32 \<and> x \<noteq> 45 \<and> x \<noteq> 95"
    using assms unfolding isDelimiter_code x_def by blast
  ultimately have "y \<noteq> 32 \<and> y \<noteq> 45 \<and> y \<noteq> 95"
    by (cases "65 \<le> x \<and> x \<le> 90") auto
  then show ?thesis unfolding isDelimiter_code y_def by blast
qed

lemma toUpper_no_delimiter:
  assumes "\<not> isDelimiter ch"
  shows "\<not> isDelimiter (toUpper ch)"
proof -
  define x y where "x = (of_char ch :: nat)" and "y = (of_char (toUpper ch) :: nat)"
  have "y = (if 97 \<le> x \<and> x \<le> 122 then x - 32 else x)"
    unfolding x_def y_def by (rule toUpper_code)
  moreover have "x \<noteq> 32 \<and> x \<noteq> 45 \<and> x \<noteq> 95"
    using assms unfolding isDelimiter_code x_def by blast
  ultimately have "y \<noteq> 32 \<and> y \<noteq> 45 \<and> y \<noteq> 95"
    by (cases "97 \<le> x \<and> x \<le> 122") auto
  then show ?thesis unfolding isDelimiter_code y_def by blast
qed

lemma capitalize_no_delimiter:
  "\<forall>ch\<in>set w. \<not> isDelimiter ch \<Longrightarrow> \<forall>ch\<in>set (capitalize w). \<not> isDelimiter ch"
  by (cases w) (simp_all add: capitalize_def toLower_no_delimiter toUpper_no_delimiter)

lemma camelCase_no_delimiter: "\<forall>ch\<in>set (camelCase s). \<not> isDelimiter ch"
proof (cases "words s")
  case Nil
  then show ?thesis by (simp add: camelCase_def)
next
  case (Cons w ws)
  have w: "\<forall>ch\<in>set w. \<not> isDelimiter ch" and ws: "\<forall>v\<in>set ws. \<forall>ch\<in>set v. \<not> isDelimiter ch"
    using words_no_delimiter [of _ s] Cons by auto
  from ws have "\<forall>v\<in>set ws. \<forall>ch\<in>set (capitalize v). \<not> isDelimiter ch"
    using capitalize_no_delimiter by blast
  with w Cons show ?thesis
    by (auto simp: camelCase_def toLower_no_delimiter)
qed

text \<open>
  C6. Every claim of the mapping that claimSchema returns has as its \<open>camelCase\<close> the
  camel-case normalization of its description, the \<open>FriendlyName\<close>. The document with the
  attributes \<open>urn:email\<close> / \<open>Email Address\<close> and \<open>urn:name\<close> / \<open>Full Name\<close> yields a
  mapping of two entries with the keys \<open>emailAddress\<close> and \<open>fullName\<close>. No delimiter is left in
  a normalized key.
\<close>

theorem claimSchema_normalizedKey:
  "(claimSchema r = Inr (Some claims) \<and> claims k = Some c \<longrightarrow>
      claim_camelCase c = camelCase (lodash_toString (claim_description c)))
   \<and> claimSchema emailNameReader =
       Inr (Some [''urn:email'' \<mapsto> emailClaim, ''urn:name'' \<mapsto> nameClaim])
   \<and> claim_description emailClaim = Str ''Email Address''
   \<and> claim_camelCase emailClaim = ''emailAddress''
   \<and> claim_description nameClaim = Str ''Full Name''
   \<and> claim_camelCase nameClaim = ''fullName''
   \<and> (\<forall>ch\<in>set (camelCase s). \<not> isDelimiter ch)"
proof -
  have "claim_camelCase c = camelCase (lodash_toString (claim_description c))"
    if cs: "claimSchema r = Inr (Some claims)" and k: "claims k = Some c"
  proof (cases "claimSchema_try r")
    case (Inl e)
    with cs k show ?thesis by (auto simp: claimSchema_def split: if_splits)
  next
    case (Inr m)
    with cs have "m = claims" by (simp add: claimSchema_def)
    with Inr obtain nodes where "reduce (claim_step r) Map.empty nodes = Inr claims"
      by (auto simp: claimSchema_try_def split: sum.splits)
    from reduce_dom [OF this k] obtain n where "claim_try r n = Inr (k, c)" by auto
    then show ?thesis by (rule claim_try_camelCase)
  qed
  moreover have "claimSchema emailNameReader =
       Inr (Some [''urn:email'' \<mapsto> emailClaim, ''urn:name'' \<mapsto> nameClaim])"
    by (simp add: claimSchema_defs emailNameReader_def emailClaim_def nameClaim_def
        example_defs claim_defs)
  ultimately show ?thesis
    using camelCase_no_delimiter [of s] by (simp add: emailClaim_def nameClaim_def)
qed

theorem claimSchema_normalizedKey_witness:
  "camelCase ''Email Address'' = ''emailAddress'' \<and> camelCase ''Full Name'' = ''fullName''"
  using claimSchema_normalizedKey
      [of emailNameReader "[''urn:email'' \<mapsto> emailClaim, ''urn:name'' \<mapsto> nameClaim]"
        "''urn:email''" emailClaim]
    claimSchema_normalizedKey
      [of emailNameReader "[''urn:email'' \<mapsto> emailClaim, ''urn:name'' \<mapsto> nameClaim]"
        "''urn:name''" nameClaim]
  by (simp add: emailClaim_def nameClaim_def)

subsection \<open>Names with a double quote\<close>

text \<open>
  C10, as amended. claimSchema builds the lookup of a claim by putting the name, as it is,
  between the quotes of the path expression. Whenever the engine throws on the resulting
  query or finds no node for it, the claim is omitted from the mapping if \<open>throwExceptions\<close>
  is false, and the whole operation throws if it is true, whatever the document holds for
  that name. The reader itself does not reject a name with a double quote.
\<close>

theorem friendlyName_lookup_failure:
  "friendlyNameQuery (Str nm) =
      ''//md:IDPSSODescriptor/claim:Attribute[@Name='' @ [CHR 0x22] @ nm @ [CHR 0x22] @
      '']/@FriendlyName''
   \<and> (query r claimNamePath = Inr nodes \<and> AttrNode a \<in> set nodes
        \<and> (query r (friendlyNameQuery (Str (value a))) = Inl e
           \<or> query r (friendlyNameQuery (Str (value a))) = Inr []) \<longrightarrow>
        (\<not> throwExceptions (options r) \<longrightarrow>
           (\<exists>claims. claimSchema r = Inr (Some claims) \<and> claims (value a) = None))
        \<and> (throwExceptions (options r) \<longrightarrow> (\<exists>e'. claimSchema r = Inl e')))"
proof (intro conjI impI)
  show "friendlyNameQuery (Str nm) =
      ''//md:IDPSSODescriptor/claim:Attribute[@Name='' @ [CHR 0x22] @ nm @ [CHR 0x22] @
      '']/@FriendlyName''"
    by (simp add: friendlyNameQuery_def)
next
  assume a: "query r claimNamePath = Inr nodes \<and> AttrNode a \<in> set nodes
        \<and> (query r (friendlyNameQuery (Str (value a))) = Inl e
           \<or> query r (friendlyNameQuery (Str (value a))) = Inr [])"
    and t: "\<not> throwExceptions (options r)"
  then obtain e' where f: "claim_try r (AttrNode a) = Inl e'"
    using claim_try_fails_iff [of r "AttrNode a"] by (auto simp: claimKey_def)
  from t obtain claims where red: "reduce (claim_step r) Map.empty nodes = Inr claims"
    using reduce_returns by blast
  with a have "claimSchema r = Inr (Some claims)"
    by (simp add: claimSchema_def claimSchema_try_def)
  moreover have "claims (value a) = None"
    using reduce_omits [OF red _ f] a by (simp add: claimKey_def)
  ultimately show "\<exists>claims. claimSchema r = Inr (Some claims) \<and> claims (value a) = None"
    by blast
next
  assume a: "query r claimNamePath = Inr nodes \<and> AttrNode a \<in> set nodes
        \<and> (query r (friendlyNameQuery (Str (value a))) = Inl e
           \<or> query r (friendlyNameQuery (Str (value a))) = Inr [])"
    and t: "throwExceptions (options r)"
  then obtain e' where f: "claim_try r (AttrNode a) = Inl e'"
    using claim_try_fails_iff [of r "AttrNode a"] by (auto simp: claimKey_def)
  have "\<exists>e''. reduce (claim_step r) acc nodes = Inl e''" if "AttrNode a \<in> set nodes" for acc
    using that
  proof (induction nodes arbitrary: acc)
    case Nil
    then show ?case by simp
  next
    case (Cons n nodes)
    show ?case
    proof (cases "claim_try r n")
      case (Inl e1)
      with t show ?thesis by (simp add: claim_step_def)
    next
      case (Inr kc)
      with f have "n \<noteq> AttrNode a" by auto
      with Cons.prems have "AttrNode a \<in> set nodes" by simp
      from Cons.IH [OF this] Inr show ?thesis
        by (cases kc) (simp add: claim_step_def)
    qed
  qed
  then obtain e'' where "reduce (claim_step r) Map.empty nodes = Inl e''"
    using a by blast
  with a t show "\<exists>e'. claimSchema r = Inl e'"
    by (simp add: claimSchema_def claimSchema_try_def)
qed

theorem friendlyName_lookup_failure_witness:
  "(\<exists>claims. claimSchema unterminatedReader = Inr (Some claims)
       \<and> claims [CHR ''a'', CHR 0x22, CHR ''b''] = None)
   \<and> (\<exists>e'. claimSchema unterminatedThrowingReader = Inl e')"
proof -
  have q: "query unterminatedReader claimNamePath = Inr [nameNode [CHR ''a'', CHR 0x22, CHR ''b'']]"
    "query unterminatedThrowingReader claimNamePath = Inr [nameNode [CHR ''a'', CHR 0x22, CHR ''b'']]"
    "query unterminatedReader (friendlyNameQuery (Str [CHR ''a'', CHR 0x22, CHR ''b''])) =
       Inl (EngineError ''Unterminated string literal'')"
    "query unterminatedThrowingReader (friendlyNameQuery (Str [CHR ''a'', CHR 0x22, CHR ''b''])) =
       Inl (EngineError ''Unterminated string literal'')"
    "\<not> throwExceptions (options unterminatedReader)"
    "throwExceptions (options unterminatedThrowingReader)"
    by (simp_all add: unterminatedReader_def unterminatedThrowingReader_def
        unterminatedDocument_def example_defs friendlyNameQuery_def)
  from friendlyName_lookup_failure
      [of _ unterminatedReader "[nameNode [CHR ''a'', CHR 0x22, CHR ''b'']]"
        "\<lparr>name = ''Name'', value = [CHR ''a'', CHR 0x22, CHR ''b'']\<rparr>"
        "EngineError ''Unterminated string literal''"]
    friendlyName_lookup_failure
      [of _ unterminatedThrowingReader "[nameNode [CHR ''a'', CHR 0x22, CHR ''b'']]"
        "\<lparr>name = ''Name'', value = [CHR ''a'', CHR 0x22, CHR ''b'']\<rparr>"
        "EngineError ''Unterminated string literal''"]
    q
  show ?thesis by (simp add: nameNode_def)
qed

text \<open>
  C10 as stated fails: the name \<open>x" or "1"="1\<close> has a double quote, the lookup built from
  it is the well-formed query \<open>//md:IDPSSODescriptor/claim:Attribute[@Name="x" or
  "1"="1"]/@FriendlyName\<close>, the engine answers it, and the claim is in the mapping, with
  \<open>throwExceptions\<close> false and true alike.
\<close>

theorem quoted_name_resolves_counterexample:
  \<open>CHR 0x22 \<in> set ''x" or "1"="1''
   \<and> query injectionReader claimNamePath = Inr [nameNode ''x" or "1"="1'']
   \<and> friendlyNameQuery (Str ''x" or "1"="1'') =
       ''//md:IDPSSODescriptor/claim:Attribute[@Name="x" or "1"="1"]/@FriendlyName''
   \<and> query injectionReader (friendlyNameQuery (Str ''x" or "1"="1'')) = Inr [friendlyName ''Sample'']
   \<and> claimSchema injectionReader = Inr (Some [''x" or "1"="1'' \<mapsto> injectionClaim])
   \<and> claimSchema injectionThrowingReader = Inr (Some [''x" or "1"="1'' \<mapsto> injectionClaim])\<close>
  by (simp add: claimSchema_defs injectionReader_def injectionThrowingReader_def
      injectionDocument_def injectionClaim_def example_defs claim_defs)

end
